theory Spec2Isabelle
  imports Complex_Main
begin

section \<open>Data model (prisma schema, migration.sql)\<close>

text \<open>
  The four enums of the schema. \<open>PayoutStatus\<close> has a value PENDING of its own, written
  \<open>PAYOUT_PENDING\<close> here because constructor names are global.
\<close>

datatype UserRole = USER | MODERATOR | ADMIN

datatype SubmissionStatus = PENDING | APPROVED | REJECTED

datatype FileType = IMAGE | VIDEO

datatype PayoutStatus = PAYOUT_PENDING | COMPLETED | CANCELLED

text \<open>
  The rows of the tables. Columns filled by the database alone (\<open>created_at\<close>,
  \<open>updated_at\<close>, the ids of payouts and admin logs) are left out; timestamps written by
  the handlers are natural numbers (milliseconds). JavaScript numbers (\<open>balance\<close>,
  \<open>amount\<close>) are modelled as reals, so rounding of doubles is not represented. Strings
  are lists of characters, one per code unit.
\<close>

record user =
  user_id :: string
  epicId :: string
  nickname :: string
  balance :: real
  role :: UserRole
  isBanned :: bool
  lastSubmission :: "nat option"
  refreshToken :: "string option"

record submission =
  submission_id :: string
  userId :: string
  fileUrl :: string
  fileName :: string
  fileType :: FileType
  fileSize :: nat
  category :: string
  description :: "string option"
  status :: SubmissionStatus
  rejectReason :: "string option"
  reviewedBy :: "string option"
  reviewedAt :: "nat option"

record payout =
  payout_userId :: string
  amount :: real
  reason :: string
  adminId :: string
  payout_status :: PayoutStatus
  completedAt :: "nat option"

text \<open>
  The details of an admin log entry are a template literal; its pieces are kept apart, so
  that no formatting of numbers has to be chosen.
\<close>

datatype piece = Txt string | Num real

record admin_log =
  log_adminId :: string
  action :: string
  details :: "piece list"

text \<open>
  The persistent state: the table \<open>users\<close> as a list of rows (it is looked up by two
  unique keys, \<open>id\<close> and \<open>epic_id\<close>), the table \<open>submissions\<close> keyed by its primary
  key, the append-only tables \<open>payouts\<close> and \<open>admin_logs\<close>, and the names of the files
  in the upload directory.
\<close>

record db =
  users :: "user list"
  submissions :: "string \<rightharpoonup> submission"
  payouts :: "payout list"
  admin_logs :: "admin_log list"
  uploads :: "string set"

section \<open>Environment: failing store calls, clock, configuration\<close>

text \<open>
  Every prisma call is awaited inside a \<open>try\<close> block and may throw. \<open>fails e c\<close> says
  whether the call \<open>c\<close> throws in the request at hand, for a reason the state does not
  determine (connection loss, constraint violation). Each handler makes each kind of call
  at most once, so one flag per kind is enough.
\<close>

datatype dbcall =
    SubmissionFindUnique | SubmissionFindFirst | SubmissionUpdate | SubmissionUpdateMany
  | SubmissionCreate | SubmissionDelete
  | UserFindUnique | UserUpdate | UserCreate
  | PayoutCreate | AdminLogCreate

record env =
  fails :: "dbcall \<Rightarrow> bool"
  now :: nat
  MAX_FILE_SIZE :: "nat option"
  ADMIN_EPIC_IDS :: "string option"
  delete_unlinks :: bool

text \<open>
  \<open>delete_unlinks e\<close> says whether the \<open>fs.unlink\<close> of the delete route removes the
  uploaded file. The route builds the path as \<open>path.join(__dirname, '..', fileUrl)\<close>,
  while the upload middleware writes to \<open>process.env.UPLOAD_DIR || './uploads'\<close>; the two
  are the same directory only in some deployments, and an unlink that fails is only
  logged. The state does not determine either.
\<close>

definition no_faults :: "dbcall \<Rightarrow> bool" where
  "no_faults c = False"

section \<open>Responses\<close>

text \<open>
  A handler answers \<open>res.status(c).json({error: m})\<close>, written \<open>Err c m\<close>, or redirects.
  \<open>kind_of\<close> reads the taxonomy of the specification off the response: 400 is a
  validation error, except for the state guard of the review route, whose 400
  "Submission already reviewed" is the invalid-state error; 401 authentication, 403
  forbidden, 404 not found, everything else a storage (internal) failure.
\<close>

datatype error = Err nat string | Redirect string

datatype error_kind =
    ValidationError | InvalidStateError | AuthenticationError | Forbidden | NotFound
  | StorageError | Redirected

fun kind_of :: "error \<Rightarrow> error_kind" where
  "kind_of (Err c m) =
     (if c = 400 then (if m = ''Submission already reviewed'' then InvalidStateError
                       else ValidationError)
      else if c = 401 then AuthenticationError
      else if c = 403 then Forbidden
      else if c = 404 then NotFound
      else StorageError)"
| "kind_of (Redirect url) = Redirected"

section \<open>middleware/auth.js\<close>

text \<open>
  A request as the guards see it: \<open>req.user\<close> as passport deserialized it from the
  session (\<open>None\<close> when there is no session, so \<open>req.isAuthenticated()\<close> is
  \<open>req_user \<noteq> None\<close>), and whether \<open>req.xhr || req.headers.accept?.indexOf('json') > -1\<close>.
\<close>

record request =
  req_user :: "user option"
  wants_json :: bool

definition isAuthenticated :: "request \<Rightarrow> error + user" where
  "isAuthenticated req =
     (case req_user req of
        Some u \<Rightarrow>
          if \<not> isBanned u then Inr u
          else if wants_json req then Inl (Err 401 ''Authentication required'')
          else Inl (Redirect ''/'')
      | None \<Rightarrow>
          if wants_json req then Inl (Err 401 ''Authentication required'')
          else Inl (Redirect ''/''))"

definition isAdmin :: "request \<Rightarrow> error + user" where
  "isAdmin req =
     (case req_user req of
        Some u \<Rightarrow>
          if role u = ADMIN \<or> role u = MODERATOR then Inr u
          else if wants_json req then Inl (Err 403 ''Admin access required'')
          else Inl (Redirect ''/'')
      | None \<Rightarrow>
          if wants_json req then Inl (Err 403 ''Admin access required'')
          else Inl (Redirect ''/''))"

definition isSuperAdmin :: "request \<Rightarrow> error + user" where
  "isSuperAdmin req =
     (case req_user req of
        Some u \<Rightarrow>
          if role u = ADMIN then Inr u
          else if wants_json req then Inl (Err 403 ''Super admin access required'')
          else Inl (Redirect ''/'')
      | None \<Rightarrow>
          if wants_json req then Inl (Err 403 ''Super admin access required'')
          else Inl (Redirect ''/''))"

text \<open>
  \<open>logAdminAction\<close> catches the failure of its own insert: the state is then unchanged
  and the caller goes on. The requester's IP and user agent are not modelled.
\<close>

definition logAdminAction :: "env \<Rightarrow> db \<Rightarrow> string \<Rightarrow> string \<Rightarrow> piece list \<Rightarrow> db" where
  "logAdminAction e d aid act det =
     (if fails e AdminLogCreate then d
      else d\<lparr>admin_logs := admin_logs d @ [\<lparr>log_adminId = aid, action = act, details = det\<rparr>]\<rparr>)"

definition canModifyUser :: "user \<Rightarrow> string \<Rightarrow> bool" where
  "canModifyUser adminUser targetUserId =
     (if user_id adminUser = targetUserId then False
      else if role adminUser = MODERATOR then True
      else True)"

text \<open>
  The guards of a router run in the order of \<open>router.use\<close>; the first that does not call
  \<open>next()\<close> answers and the state is untouched. Rate limiting is an admission control
  outside the model and taken to admit the request.
\<close>

definition authenticated :: "request \<Rightarrow> db \<Rightarrow> (user \<Rightarrow> (error + 'a) \<times> db) \<Rightarrow> (error + 'a) \<times> db" where
  "authenticated req d handler =
     (case isAuthenticated req of
        Inl r \<Rightarrow> (Inl r, d)
      | Inr u \<Rightarrow> handler u)"

definition admin_only :: "request \<Rightarrow> db \<Rightarrow> (user \<Rightarrow> (error + 'a) \<times> db) \<Rightarrow> (error + 'a) \<times> db" where
  "admin_only req d handler =
     (case isAuthenticated req of
        Inl r \<Rightarrow> (Inl r, d)
      | Inr u0 \<Rightarrow>
          (case isAdmin req of
             Inl r \<Rightarrow> (Inl r, d)
           | Inr u \<Rightarrow> handler u))"

section \<open>Store calls\<close>

text \<open>
  The prisma calls the handlers make, each \<open>None\<close> when it throws: by the flag of the
  environment, or because the state decides it (an update or delete of a row that does
  not exist, a create under a primary key that exists).
\<close>

definition submission_update :: "env \<Rightarrow> db \<Rightarrow> string \<Rightarrow> (submission \<Rightarrow> submission) \<Rightarrow> (submission \<times> db) option" where
  "submission_update e d sid f =
     (if fails e SubmissionUpdate then None
      else case submissions d sid of
             None \<Rightarrow> None
           | Some s \<Rightarrow> Some (f s, d\<lparr>submissions := (submissions d)(sid \<mapsto> f s)\<rparr>))"

definition user_by_id :: "db \<Rightarrow> string \<Rightarrow> user option" where
  "user_by_id d uid = find (\<lambda>u. user_id u = uid) (users d)"

definition user_by_epicId :: "db \<Rightarrow> string \<Rightarrow> user option" where
  "user_by_epicId d eid = find (\<lambda>u. epicId u = eid) (users d)"

definition user_update :: "env \<Rightarrow> db \<Rightarrow> string \<Rightarrow> (user \<Rightarrow> user) \<Rightarrow> (user \<times> db) option" where
  "user_update e d uid f =
     (if fails e UserUpdate then None
      else case user_by_id d uid of
             None \<Rightarrow> None
           | Some u \<Rightarrow>
               Some (f u, d\<lparr>users := map (\<lambda>v. if user_id v = uid then f v else v) (users d)\<rparr>))"

definition payout_create :: "env \<Rightarrow> db \<Rightarrow> payout \<Rightarrow> (payout \<times> db) option" where
  "payout_create e d p =
     (if fails e PayoutCreate then None
      else Some (p, d\<lparr>payouts := payouts d @ [p]\<rparr>))"

definition submission_create :: "env \<Rightarrow> db \<Rightarrow> submission \<Rightarrow> (submission \<times> db) option" where
  "submission_create e d s =
     (if fails e SubmissionCreate \<or> submissions d (submission_id s) \<noteq> None then None
      else Some (s, d\<lparr>submissions := (submissions d)(submission_id s \<mapsto> s)\<rparr>))"

definition submission_delete :: "env \<Rightarrow> db \<Rightarrow> string \<Rightarrow> db option" where
  "submission_delete e d sid =
     (if fails e SubmissionDelete \<or> submissions d sid = None then None
      else Some (d\<lparr>submissions := (submissions d)(sid := None)\<rparr>))"

definition user_create :: "env \<Rightarrow> db \<Rightarrow> user \<Rightarrow> (user \<times> db) option" where
  "user_create e d u =
     (if fails e UserCreate \<or> user_by_id d (user_id u) \<noteq> None
         \<or> user_by_epicId d (epicId u) \<noteq> None then None
      else Some (u, d\<lparr>users := users d @ [u]\<rparr>))"

text \<open>
  \<open>updateMany\<close> with the filter \<open>{id: {in: ids}, status: 'PENDING'}\<close>: every row that
  matches is rewritten once, whatever the number of times its id is listed, and the
  number of rows rewritten is returned.
\<close>

definition is_pending :: "db \<Rightarrow> string \<Rightarrow> bool" where
  "is_pending d sid = (case submissions d sid of Some s \<Rightarrow> status s = PENDING | None \<Rightarrow> False)"

definition submission_updateMany :: "env \<Rightarrow> db \<Rightarrow> string list \<Rightarrow> (submission \<Rightarrow> submission) \<Rightarrow> (nat \<times> db) option" where
  "submission_updateMany e d ids f =
     (if fails e SubmissionUpdateMany then None
      else Some (length (filter (is_pending d) (remdups ids)),
                 d\<lparr>submissions := (\<lambda>sid. if sid \<in> set ids \<and> is_pending d sid
                                            then map_option f (submissions d sid)
                                            else submissions d sid)\<rparr>))"

section \<open>routes/admin.js: validation schemas\<close>

text \<open>
  Request bodies are records of optional fields, \<open>None\<close> for a key that is absent; a
  field has the JSON type its schema asks for, and keys outside the schema are not
  representable. Joi checks the keys in the order of the schema and stops at the first
  failure; the message is Joi's, without the double quotes it puts around the key. A
  \<open>Joi.string()\<close> never accepts the empty string.
\<close>

record review_body =
  rb_status :: "string option"
  rb_rejectReason :: "string option"
  rb_bonusAmount :: "real option"

record review_value =
  rv_status :: SubmissionStatus
  rv_rejectReason :: "string option"
  rv_bonusAmount :: "real option"

definition reviewSubmissionSchema :: "review_body \<Rightarrow> string + review_value" where
  "reviewSubmissionSchema b =
     (case rb_status b of
        None \<Rightarrow> Inl ''status is required''
      | Some st \<Rightarrow>
          if st \<noteq> ''APPROVED'' \<and> st \<noteq> ''REJECTED'' then
            Inl ''status must be one of [APPROVED, REJECTED]''
          else if rb_rejectReason b = Some [] then
            Inl ''rejectReason is not allowed to be empty''
          else if st = ''REJECTED'' \<and> rb_rejectReason b = None then
            Inl ''rejectReason is required''
          else if (case rb_bonusAmount b of Some x \<Rightarrow> x < 0 | None \<Rightarrow> False) then
            Inl ''bonusAmount must be greater than or equal to 0''
          else if (case rb_bonusAmount b of Some x \<Rightarrow> x > 1000 | None \<Rightarrow> False) then
            Inl ''bonusAmount must be less than or equal to 1000''
          else
            Inr \<lparr>rv_status = (if st = ''APPROVED'' then APPROVED else REJECTED),
                 rv_rejectReason = rb_rejectReason b,
                 rv_bonusAmount = rb_bonusAmount b\<rparr>)"

record balance_body =
  ab_amount :: "real option"
  ab_reason :: "string option"

definition addBalanceSchema :: "balance_body \<Rightarrow> string + real \<times> string" where
  "addBalanceSchema b =
     (case ab_amount b of
        None \<Rightarrow> Inl ''amount is required''
      | Some a \<Rightarrow>
          if a < 1 / 100 then Inl ''amount must be greater than or equal to 0.01''
          else if a > 10000 then Inl ''amount must be less than or equal to 10000''
          else (case ab_reason b of
                  None \<Rightarrow> Inl ''reason is required''
                | Some r \<Rightarrow>
                    if r = [] then Inl ''reason is not allowed to be empty''
                    else if length r < 3 then
                      Inl ''reason length must be at least 3 characters long''
                    else if length r > 200 then
                      Inl ''reason length must be less than or equal to 200 characters long''
                    else Inr (a, r)))"

record update_body =
  ub_role :: "string option"
  ub_isBanned :: "bool option"
  ub_balance :: "real option"

record update_value =
  uv_role :: "UserRole option"
  uv_isBanned :: "bool option"
  uv_balance :: "real option"

definition parse_role :: "string \<Rightarrow> UserRole option" where
  "parse_role r =
     (if r = ''USER'' then Some USER
      else if r = ''MODERATOR'' then Some MODERATOR
      else if r = ''ADMIN'' then Some ADMIN
      else None)"

definition updateUserSchema :: "update_body \<Rightarrow> string + update_value" where
  "updateUserSchema b =
     (if (case ub_role b of Some r \<Rightarrow> parse_role r = None | None \<Rightarrow> False) then
        Inl ''role must be one of [USER, MODERATOR, ADMIN]''
      else if (case ub_balance b of Some x \<Rightarrow> x < 0 | None \<Rightarrow> False) then
        Inl ''balance must be greater than or equal to 0''
      else if (case ub_balance b of Some x \<Rightarrow> x > 100000 | None \<Rightarrow> False) then
        Inl ''balance must be less than or equal to 100000''
      else
        Inr \<lparr>uv_role = (case ub_role b of Some r \<Rightarrow> parse_role r | None \<Rightarrow> None),
             uv_isBanned = ub_isBanned b,
             uv_balance = ub_balance b\<rparr>)"

text \<open>JavaScript's \<open>x || null\<close> on an optional string: the empty string is falsy.\<close>

definition or_null :: "string option \<Rightarrow> string option" where
  "or_null x = (case x of Some s \<Rightarrow> if s = [] then None else Some s | None \<Rightarrow> None)"

definition status_string :: "SubmissionStatus \<Rightarrow> string" where
  "status_string st =
     (case st of PENDING \<Rightarrow> ''PENDING'' | APPROVED \<Rightarrow> ''APPROVED'' | REJECTED \<Rightarrow> ''REJECTED'')"

definition status_lower :: "SubmissionStatus \<Rightarrow> string" where
  "status_lower st =
     (case st of PENDING \<Rightarrow> ''pending'' | APPROVED \<Rightarrow> ''approved'' | REJECTED \<Rightarrow> ''rejected'')"

section \<open>routes/admin.js: PATCH /submissions/:id/review\<close>

text \<open>
  The block "Add bonus balance if approved and bonus specified" of the handler: two
  awaited calls one after the other, no transaction around them. The result says whether
  the block ran to its end without a throw; the state is the one the block leaves behind
  either way.
\<close>

definition review_bonus :: "env \<Rightarrow> db \<Rightarrow> user \<Rightarrow> submission \<Rightarrow> review_value \<Rightarrow> bool \<times> db" where
  "review_bonus e d u s v =
     (case rv_bonusAmount v of
        None \<Rightarrow> (True, d)
      | Some b \<Rightarrow>
          if rv_status v = APPROVED \<and> b > 0 then
            (case user_update e d (userId s) (\<lambda>w. w\<lparr>balance := balance w + b\<rparr>) of
               None \<Rightarrow> (False, d)
             | Some (w, d1) \<Rightarrow>
                 (case payout_create e d1
                         \<lparr>payout_userId = userId s, amount = b,
                          reason = ''Approved submission: '' @ category s,
                          adminId = user_id u, payout_status = COMPLETED,
                          completedAt = Some (now e)\<rparr> of
                    None \<Rightarrow> (False, d1)
                  | Some (p, d2) \<Rightarrow> (True, d2)))
          else (True, d))"

definition review_details :: "review_value \<Rightarrow> submission \<Rightarrow> user \<Rightarrow> piece list" where
  "review_details v s owner =
     [Txt (status_string (rv_status v)), Txt '' submission '', Txt (submission_id s),
      Txt '' from '', Txt (nickname owner)]
     @ (case rv_bonusAmount v of
          Some b \<Rightarrow> if b \<noteq> 0 then [Txt '' with '', Num b, Txt '' bonus''] else []
        | None \<Rightarrow> [])"

text \<open>The \<open>data\<close> of the update of the reviewed submission.\<close>

definition review_data :: "env \<Rightarrow> user \<Rightarrow> review_value \<Rightarrow> submission \<Rightarrow> submission" where
  "review_data e u v x =
     x\<lparr>status := rv_status v,
       rejectReason := or_null (rv_rejectReason v),
       reviewedBy := Some (user_id u),
       reviewedAt := Some (now e)\<rparr>"

text \<open>
  The handler, for the admin \<open>u\<close> the guards let through. \<open>findUnique\<close> includes the
  owner of the submission; a submission without one makes \<open>submission.user.nickname\<close>
  throw when the log entry is built, after the writes.
\<close>

definition review_handler :: "env \<Rightarrow> db \<Rightarrow> user \<Rightarrow> string \<Rightarrow> review_body \<Rightarrow> (error + submission) \<times> db" where
  "review_handler e d u sid body =
     (case reviewSubmissionSchema body of
        Inl m \<Rightarrow> (Inl (Err 400 m), d)
      | Inr v \<Rightarrow>
          if fails e SubmissionFindUnique then
            (Inl (Err 500 ''Failed to review submission''), d)
          else
            (case submissions d sid of
               None \<Rightarrow> (Inl (Err 404 ''Submission not found''), d)
             | Some s \<Rightarrow>
                 if status s \<noteq> PENDING then
                   (Inl (Err 400 ''Submission already reviewed''), d)
                 else
                   (case submission_update e d sid (review_data e u v) of
                      None \<Rightarrow> (Inl (Err 500 ''Failed to review submission''), d)
                    | Some (updatedSubmission, d1) \<Rightarrow>
                        (case review_bonus e d1 u s v of
                           (False, d2) \<Rightarrow> (Inl (Err 500 ''Failed to review submission''), d2)
                         | (True, d2) \<Rightarrow>
                             (case user_by_id d (userId s) of
                                None \<Rightarrow> (Inl (Err 500 ''Failed to review submission''), d2)
                              | Some owner \<Rightarrow>
                                  (Inr updatedSubmission,
                                   logAdminAction e d2 (user_id u) ''REVIEW_SUBMISSION''
                                     (review_details v s owner)))))))"

text \<open>
  The handler awaits between its lookup and its writes, and the update is by id alone,
  with no condition on the status (the bulk route has one). For requests that overlap,
  the handler is therefore two steps: \<open>review_read\<close>, up to the check of the status
  (validation, \<open>findUnique\<close>, the two early answers), which leaves the state alone and
  hands on the validated body, the submission as read and its owner; and
  \<open>review_write\<close>, the rest, on whatever the state is by then.
\<close>

definition review_read :: "env \<Rightarrow> db \<Rightarrow> string \<Rightarrow> review_body \<Rightarrow> error + review_value \<times> submission \<times> user option" where
  "review_read e d sid body =
     (case reviewSubmissionSchema body of
        Inl m \<Rightarrow> Inl (Err 400 m)
      | Inr v \<Rightarrow>
          if fails e SubmissionFindUnique then Inl (Err 500 ''Failed to review submission'')
          else
            (case submissions d sid of
               None \<Rightarrow> Inl (Err 404 ''Submission not found'')
             | Some s \<Rightarrow>
                 if status s \<noteq> PENDING then Inl (Err 400 ''Submission already reviewed'')
                 else Inr (v, s, user_by_id d (userId s))))"

definition review_write :: "env \<Rightarrow> db \<Rightarrow> user \<Rightarrow> string \<Rightarrow> review_value \<times> submission \<times> user option \<Rightarrow> (error + submission) \<times> db" where
  "review_write e d u sid p =
     (case p of
        (v, s, owner) \<Rightarrow>
          (case submission_update e d sid (review_data e u v) of
             None \<Rightarrow> (Inl (Err 500 ''Failed to review submission''), d)
           | Some (updatedSubmission, d1) \<Rightarrow>
               (case review_bonus e d1 u s v of
                  (False, d2) \<Rightarrow> (Inl (Err 500 ''Failed to review submission''), d2)
                | (True, d2) \<Rightarrow>
                    (case owner of
                       None \<Rightarrow> (Inl (Err 500 ''Failed to review submission''), d2)
                     | Some w \<Rightarrow>
                         (Inr updatedSubmission,
                          logAdminAction e d2 (user_id u) ''REVIEW_SUBMISSION''
                            (review_details v s w))))))"

definition PATCH_submissions_review :: "env \<Rightarrow> db \<Rightarrow> request \<Rightarrow> string \<Rightarrow> review_body \<Rightarrow> (error + submission) \<times> db" where
  "PATCH_submissions_review e d req sid body =
     admin_only req d (\<lambda>u. review_handler e d u sid body)"

section \<open>routes/admin.js: PATCH /submissions/bulk-review\<close>

text \<open>
  \<open>bb_submissionIds\<close> is \<open>None\<close> when the key is not an array. \<open>!rejectReason\<close> holds for
  an absent and for an empty reason.
\<close>

record bulk_body =
  bb_submissionIds :: "string list option"
  bb_status :: "string option"
  bb_rejectReason :: "string option"

text \<open>The \<open>data\<close> of the bulk update.\<close>

definition bulk_data :: "env \<Rightarrow> user \<Rightarrow> SubmissionStatus \<Rightarrow> string option \<Rightarrow> submission \<Rightarrow> submission" where
  "bulk_data e u st rr x =
     x\<lparr>status := st,
       rejectReason := (if st = REJECTED then rr else None),
       reviewedBy := Some (user_id u),
       reviewedAt := Some (now e)\<rparr>"

definition bulk_review_handler :: "env \<Rightarrow> db \<Rightarrow> user \<Rightarrow> bulk_body \<Rightarrow> (error + nat) \<times> db" where
  "bulk_review_handler e d u body =
     (case bb_submissionIds body of
        None \<Rightarrow> (Inl (Err 400 ''No submissions selected''), d)
      | Some ids \<Rightarrow>
          if ids = [] then (Inl (Err 400 ''No submissions selected''), d)
          else if bb_status body \<noteq> Some ''APPROVED'' \<and> bb_status body \<noteq> Some ''REJECTED'' then
            (Inl (Err 400 ''Invalid status''), d)
          else if bb_status body = Some ''REJECTED'' \<and> or_null (bb_rejectReason body) = None then
            (Inl (Err 400 ''Reject reason required''), d)
          else
            (let st = (if bb_status body = Some ''APPROVED'' then APPROVED else REJECTED) in
             case submission_updateMany e d ids (bulk_data e u st (bb_rejectReason body)) of
               None \<Rightarrow> (Inl (Err 500 ''Failed to bulk review submissions''), d)
             | Some (count, d1) \<Rightarrow>
                 (Inr count,
                  logAdminAction e d1 (user_id u) ''BULK_REVIEW_SUBMISSIONS''
                    [Txt ''Bulk '', Txt (status_lower st), Txt '' '', Num (real count),
                     Txt '' submissions''])))"

definition PATCH_submissions_bulk_review :: "env \<Rightarrow> db \<Rightarrow> request \<Rightarrow> bulk_body \<Rightarrow> (error + nat) \<times> db" where
  "PATCH_submissions_bulk_review e d req body =
     admin_only req d (\<lambda>u. bulk_review_handler e d u body)"

section \<open>routes/admin.js: PATCH /users/:id\<close>

definition role_string :: "UserRole \<Rightarrow> string" where
  "role_string r = (case r of USER \<Rightarrow> ''USER'' | MODERATOR \<Rightarrow> ''MODERATOR'' | ADMIN \<Rightarrow> ''ADMIN'')"

text \<open>The pieces of \<open>JSON.stringify(value)\<close>: the keys that are present, in schema order.\<close>

definition stringify_value :: "update_value \<Rightarrow> piece list" where
  "stringify_value v =
     (case uv_role v of Some r \<Rightarrow> [Txt ''role'', Txt (role_string r)] | None \<Rightarrow> [])
     @ (case uv_isBanned v of
          Some b \<Rightarrow> [Txt ''isBanned'', Txt (if b then ''true'' else ''false'')]
        | None \<Rightarrow> [])
     @ (case uv_balance v of Some x \<Rightarrow> [Txt ''balance'', Num x] | None \<Rightarrow> [])"

text \<open>\<open>data: value\<close> writes the keys that are present and leaves the others.\<close>

definition apply_value :: "update_value \<Rightarrow> user \<Rightarrow> user" where
  "apply_value v w =
     w\<lparr>role := (case uv_role v of Some r \<Rightarrow> r | None \<Rightarrow> role w),
       isBanned := (case uv_isBanned v of Some b \<Rightarrow> b | None \<Rightarrow> isBanned w),
       balance := (case uv_balance v of Some x \<Rightarrow> x | None \<Rightarrow> balance w)\<rparr>"

definition update_user_handler :: "env \<Rightarrow> db \<Rightarrow> user \<Rightarrow> string \<Rightarrow> update_body \<Rightarrow> (error + user) \<times> db" where
  "update_user_handler e d u tid body =
     (case updateUserSchema body of
        Inl m \<Rightarrow> (Inl (Err 400 m), d)
      | Inr v \<Rightarrow>
          if \<not> canModifyUser u tid then (Inl (Err 403 ''Cannot modify this user''), d)
          else if fails e UserFindUnique then (Inl (Err 500 ''Failed to update user''), d)
          else
            (case user_by_id d tid of
               None \<Rightarrow> (Inl (Err 404 ''User not found''), d)
             | Some target \<Rightarrow>
                 if uv_role v \<noteq> None \<and> role u \<noteq> ADMIN then
                   (Inl (Err 403 ''Only super admins can change roles''), d)
                 else
                   (case user_update e d tid (apply_value v) of
                      None \<Rightarrow> (Inl (Err 500 ''Failed to update user''), d)
                    | Some (updatedUser, d1) \<Rightarrow>
                        (Inr updatedUser,
                         logAdminAction e d1 (user_id u) ''UPDATE_USER''
                           ([Txt ''Updated user '', Txt (nickname target), Txt '': '']
                            @ stringify_value v)))))"

definition PATCH_users :: "env \<Rightarrow> db \<Rightarrow> request \<Rightarrow> string \<Rightarrow> update_body \<Rightarrow> (error + user) \<times> db" where
  "PATCH_users e d req tid body = admin_only req d (\<lambda>u. update_user_handler e d u tid body)"

section \<open>routes/admin.js: POST /users/:id/add-balance\<close>

text \<open>
  \<open>Promise.all\<close> starts both calls; neither waits for the other and a throw of one does
  not undo or stop the other. The handler goes on only when both have succeeded.
\<close>

definition add_balance_handler :: "env \<Rightarrow> db \<Rightarrow> user \<Rightarrow> string \<Rightarrow> balance_body \<Rightarrow> (error + real \<times> payout) \<times> db" where
  "add_balance_handler e d u tid body =
     (case addBalanceSchema body of
        Inl m \<Rightarrow> (Inl (Err 400 m), d)
      | Inr (a, r) \<Rightarrow>
          if \<not> canModifyUser u tid then (Inl (Err 403 ''Cannot modify this user''), d)
          else if fails e UserFindUnique then (Inl (Err 500 ''Failed to add balance''), d)
          else
            (case user_by_id d tid of
               None \<Rightarrow> (Inl (Err 404 ''User not found''), d)
             | Some target \<Rightarrow>
                 (let p = \<lparr>payout_userId = tid, amount = a, reason = r, adminId = user_id u,
                           payout_status = COMPLETED, completedAt = Some (now e)\<rparr> in
                  case user_update e d tid (\<lambda>w. w\<lparr>balance := balance w + a\<rparr>) of
                    None \<Rightarrow>
                      (case payout_create e d p of
                         None \<Rightarrow> (Inl (Err 500 ''Failed to add balance''), d)
                       | Some (q, d2) \<Rightarrow> (Inl (Err 500 ''Failed to add balance''), d2))
                  | Some (updatedUser, d1) \<Rightarrow>
                      (case payout_create e d1 p of
                         None \<Rightarrow> (Inl (Err 500 ''Failed to add balance''), d1)
                       | Some (q, d2) \<Rightarrow>
                           (Inr (balance updatedUser, q),
                            logAdminAction e d2 (user_id u) ''ADD_BALANCE''
                              [Txt ''Added '', Num a, Txt '' to '', Txt (nickname target),
                               Txt '': '', Txt r])))))"

definition POST_users_add_balance :: "env \<Rightarrow> db \<Rightarrow> request \<Rightarrow> string \<Rightarrow> balance_body \<Rightarrow> (error + real \<times> payout) \<times> db" where
  "POST_users_add_balance e d req tid body =
     admin_only req d (\<lambda>u. add_balance_handler e d u tid body)"

section \<open>middleware/errorHandler.js\<close>

text \<open>
  An error passed to \<open>next(err)\<close>: its \<open>code\<close>, its \<open>name\<close> and its
  \<open>statusCode || status\<close>. The handler answers by the first test that matches.
\<close>

record js_error =
  err_code :: "string option"
  err_name :: string
  err_status :: "nat option"

definition errorHandler :: "js_error \<Rightarrow> error" where
  "errorHandler err =
     (if err_code err = Some ''LIMIT_FILE_SIZE'' then Err 400 ''File too large''
      else if err_code err = Some ''LIMIT_FILE_COUNT'' then Err 400 ''Too many files''
      else if err_code err = Some ''LIMIT_UNEXPECTED_FILE'' then Err 400 ''Unexpected file field''
      else if err_code err = Some ''P2002'' then Err 400 ''Duplicate entry''
      else if err_code err = Some ''P2025'' then Err 404 ''Record not found''
      else if err_name err = ''JsonWebTokenError'' then Err 401 ''Invalid token''
      else if err_name err = ''TokenExpiredError'' then Err 401 ''Token expired''
      else if err_name err = ''ValidationError'' then Err 400 ''Validation failed''
      else if err_code err = Some ''ENOENT'' then Err 404 ''File not found''
      else if err_code err = Some ''ENOSPC'' then Err 507 ''Insufficient storage''
      else Err (case err_status err of Some c \<Rightarrow> if c = 0 then 500 else c | None \<Rightarrow> 500)
               ''Internal server error'')"

section \<open>routes/submissions.js: upload\<close>

record upload =
  originalname :: string
  mimetype :: string
  upload_size :: nat

definition allowedTypes :: "string list" where
  "allowedTypes =
     [''image/jpeg'', ''image/jpg'', ''image/png'', ''image/gif'', ''image/webp'',
      ''video/mp4'', ''video/avi'', ''video/mov'', ''video/wmv'', ''video/webm'']"

definition fileFilter :: "upload \<Rightarrow> js_error + bool" where
  "fileFilter file =
     (if mimetype file \<in> set allowedTypes then Inr True
      else Inl \<lparr>err_code = None, err_name = ''Error'', err_status = None\<rparr>)"

definition fileSize_limit :: "env \<Rightarrow> nat" where
  "fileSize_limit e =
     (case MAX_FILE_SIZE e of
        Some n \<Rightarrow> if n = 0 then 100 * 1024 * 1024 else n
      | None \<Rightarrow> 100 * 1024 * 1024)"

text \<open>
  \<open>upload.single('file')\<close>, as multer runs it with the storage, the filter and the limit
  configured above: a request without a file part goes on with \<open>req.file\<close> undefined; a
  file the filter refuses is not written and the filter's error is passed on; a file over
  the limit is passed on as \<open>LIMIT_FILE_SIZE\<close>, and multer removes what it had written;
  otherwise the file is in the upload directory when the handler starts. \<open>fname\<close> is the
  name \<open>storage.filename\<close> gives the file, a fresh uuid followed by the extension of the
  original name.
\<close>

definition upload_single :: "env \<Rightarrow> db \<Rightarrow> upload option \<Rightarrow> string \<Rightarrow> (js_error + (upload \<times> string) option) \<times> db" where
  "upload_single e d file fname =
     (case file of
        None \<Rightarrow> (Inr None, d)
      | Some f \<Rightarrow>
          (case fileFilter f of
             Inl err \<Rightarrow> (Inl err, d)
           | Inr ok \<Rightarrow>
               if upload_size f > fileSize_limit e then
                 (Inl \<lparr>err_code = Some ''LIMIT_FILE_SIZE'', err_name = ''MulterError'',
                       err_status = None\<rparr>, d)
               else (Inr (Some (f, fname)), d\<lparr>uploads := insert fname (uploads d)\<rparr>)))"

section \<open>routes/submissions.js: POST /\<close>

record create_body =
  cb_category :: "string option"
  cb_description :: "string option"

definition createSubmissionSchema :: "create_body \<Rightarrow> string + string \<times> string option" where
  "createSubmissionSchema b =
     (case cb_category b of
        None \<Rightarrow> Inl ''category is required''
      | Some c \<Rightarrow>
          if c = [] then Inl ''category is not allowed to be empty''
          else if length c < 2 then Inl ''category length must be at least 2 characters long''
          else if length c > 50 then
            Inl ''category length must be less than or equal to 50 characters long''
          else if cb_description b = Some [] then Inl ''description is not allowed to be empty''
          else if (case cb_description b of Some x \<Rightarrow> length x > 500 | None \<Rightarrow> False) then
            Inl ''description length must be less than or equal to 500 characters long''
          else Inr (c, cb_description b))"

text \<open>
  \<open>fs.unlink\<close> of a file of the upload directory; a file that is not there is an error
  the callback only logs.
\<close>

definition unlink :: "db \<Rightarrow> string \<Rightarrow> db" where
  "unlink d fname = d\<lparr>uploads := uploads d - {fname}\<rparr>"

text \<open>
  The handler. The three checks at its head answer with \<open>return res.status(...)\<close> inside
  the \<open>try\<close> block; only a throw of a store call reaches the \<open>catch\<close> block, which
  removes the uploaded file. A throw of a store call never carries the code
  \<open>LIMIT_FILE_SIZE\<close>, so the \<open>catch\<close> block answers 500. \<open>new_id\<close> is the id the
  database gives the new row.
\<close>

definition create_handler :: "env \<Rightarrow> db \<Rightarrow> user \<Rightarrow> create_body \<Rightarrow> (upload \<times> string) option \<Rightarrow> string \<Rightarrow> (error + submission) \<times> db" where
  "create_handler e d u body file new_id =
     (if isBanned u then (Inl (Err 403 ''Your account has been banned''), d)
      else
        (case createSubmissionSchema body of
           Inl m \<Rightarrow> (Inl (Err 400 m), d)
         | Inr (cat, desc) \<Rightarrow>
             (case file of
                None \<Rightarrow> (Inl (Err 400 ''File is required''), d)
              | Some (f, fname) \<Rightarrow>
                  (case submission_create e d
                          \<lparr>submission_id = new_id, userId = user_id u,
                           fileUrl = ''/uploads/'' @ fname, fileName = originalname f,
                           fileType = (if take 6 (mimetype f) = ''image/'' then IMAGE else VIDEO),
                           fileSize = upload_size f, category = cat,
                           description = or_null desc, status = PENDING,
                           rejectReason = None, reviewedBy = None, reviewedAt = None\<rparr> of
                     None \<Rightarrow> (Inl (Err 500 ''Failed to create submission''), unlink d fname)
                   | Some (s, d1) \<Rightarrow>
                       (case user_update e d1 (user_id u)
                               (\<lambda>w. w\<lparr>lastSubmission := Some (now e)\<rparr>) of
                          None \<Rightarrow> (Inl (Err 500 ''Failed to create submission''), unlink d1 fname)
                        | Some (w, d2) \<Rightarrow> (Inr s, d2))))))"

text \<open>
  The route after the guard: the upload middleware, whose error goes to the error handler
  of the application, then the handler.
\<close>

definition upload_then_create :: "env \<Rightarrow> db \<Rightarrow> user \<Rightarrow> create_body \<Rightarrow> upload option \<Rightarrow> string \<Rightarrow> string \<Rightarrow> (error + submission) \<times> db" where
  "upload_then_create e d u body file fname new_id =
     (case upload_single e d file fname of
        (Inl err, d1) \<Rightarrow> (Inl (errorHandler err), d1)
      | (Inr staged, d1) \<Rightarrow> create_handler e d1 u body staged new_id)"

definition POST_submissions :: "env \<Rightarrow> db \<Rightarrow> request \<Rightarrow> create_body \<Rightarrow> upload option \<Rightarrow> string \<Rightarrow> string \<Rightarrow> (error + submission) \<times> db" where
  "POST_submissions e d req body file fname new_id =
     authenticated req d (\<lambda>u. upload_then_create e d u body file fname new_id)"

section \<open>routes/submissions.js: DELETE /:id\<close>

text \<open>
  \<open>findFirst\<close> with the filter \<open>{id, userId: req.user.id, status: 'PENDING'}\<close>; the
  unlink is started before the row is deleted, and the row is deleted by id alone. The
  file the unlink names is the one after the prefix \<open>/uploads/\<close> of \<open>fileUrl\<close>;
  whether it is removed is the environment's \<open>delete_unlinks\<close>.
\<close>

definition unlink_by_url :: "env \<Rightarrow> db \<Rightarrow> string \<Rightarrow> db" where
  "unlink_by_url e d url = (if delete_unlinks e then unlink d (drop 9 url) else d)"

definition delete_handler :: "env \<Rightarrow> db \<Rightarrow> user \<Rightarrow> string \<Rightarrow> (error + unit) \<times> db" where
  "delete_handler e d u sid =
     (if fails e SubmissionFindFirst then (Inl (Err 500 ''Failed to delete submission''), d)
      else
        (case submissions d sid of
           None \<Rightarrow> (Inl (Err 404 ''Submission not found or cannot be deleted''), d)
         | Some s \<Rightarrow>
             if \<not> (userId s = user_id u \<and> status s = PENDING) then
               (Inl (Err 404 ''Submission not found or cannot be deleted''), d)
             else
               (let d1 = unlink_by_url e d (fileUrl s) in
                case submission_delete e d1 sid of
                  None \<Rightarrow> (Inl (Err 500 ''Failed to delete submission''), d1)
                | Some d2 \<Rightarrow> (Inr (), d2))))"

text \<open>
  The same handler as two steps, for requests that overlap: \<open>delete_read\<close>, the lookup
  and its early answer, and \<open>delete_write\<close>, the unlink and the delete by id, on
  whatever the state is by then.
\<close>

definition delete_read :: "env \<Rightarrow> db \<Rightarrow> user \<Rightarrow> string \<Rightarrow> error + submission" where
  "delete_read e d u sid =
     (if fails e SubmissionFindFirst then Inl (Err 500 ''Failed to delete submission'')
      else
        (case submissions d sid of
           None \<Rightarrow> Inl (Err 404 ''Submission not found or cannot be deleted'')
         | Some s \<Rightarrow>
             if \<not> (userId s = user_id u \<and> status s = PENDING) then
               Inl (Err 404 ''Submission not found or cannot be deleted'')
             else Inr s))"

definition delete_write :: "env \<Rightarrow> db \<Rightarrow> string \<Rightarrow> submission \<Rightarrow> (error + unit) \<times> db" where
  "delete_write e d sid s =
     (let d1 = unlink_by_url e d (fileUrl s) in
      case submission_delete e d1 sid of
        None \<Rightarrow> (Inl (Err 500 ''Failed to delete submission''), d1)
      | Some d2 \<Rightarrow> (Inr (), d2))"

definition DELETE_submissions :: "env \<Rightarrow> db \<Rightarrow> request \<Rightarrow> string \<Rightarrow> (error + unit) \<times> db" where
  "DELETE_submissions e d req sid = authenticated req d (\<lambda>u. delete_handler e d u sid)"

section \<open>config/passport.js: the verify callback of the OAuth2 strategy\<close>

text \<open>
  What the callback receives and fetches: the \<open>account_id\<close> of the token response, the
  refresh token, and the outcome of the request for the account (a throw, a response that
  is not ok, or the list \<open>userData\<close>). An absent display name is \<open>None\<close>.
\<close>

record epic_user =
  accountId :: string
  displayName :: "string option"

datatype fetched = FetchThrew | NotOk | Ok "epic_user list"

datatype identity_error = NoAccountId | FetchFailed | NoUserData | StoreThrew

text \<open>\<open>s.split(',')\<close>: the empty string gives one empty field.\<close>

fun split_comma :: "string \<Rightarrow> string list" where
  "split_comma [] = [[]]"
| "split_comma (c # cs) =
     (if c = CHR '','' then [] # split_comma cs
      else (case split_comma cs of
              [] \<Rightarrow> [[c]]
            | x # xs \<Rightarrow> (c # x) # xs))"

text \<open>\<open>s.slice(-n)\<close>: the last \<open>n\<close> characters, the whole string when it is shorter.\<close>

definition slice_last :: "nat \<Rightarrow> string \<Rightarrow> string" where
  "slice_last n s = drop (length s - n) s"

definition adminIds :: "env \<Rightarrow> string list" where
  "adminIds e = (case ADMIN_EPIC_IDS e of Some s \<Rightarrow> split_comma s | None \<Rightarrow> [])"

definition new_nickname :: "epic_user \<Rightarrow> string" where
  "new_nickname epicUser =
     (case displayName epicUser of
        Some n \<Rightarrow> if n \<noteq> [] then n else ''User_'' @ slice_last 8 (accountId epicUser)
      | None \<Rightarrow> ''User_'' @ slice_last 8 (accountId epicUser))"

text \<open>
  \<open>new_id\<close> is the id the database gives a new row. In the update of a user that exists,
  a value that is undefined leaves its column as it is.
\<close>

definition verify_callback :: "env \<Rightarrow> db \<Rightarrow> string option \<Rightarrow> string option \<Rightarrow> fetched \<Rightarrow> string \<Rightarrow> (identity_error + user) \<times> db" where
  "verify_callback e d rt account_id response new_id =
     (if account_id = None \<or> account_id = Some [] then (Inl NoAccountId, d)
      else
        (case response of
           FetchThrew \<Rightarrow> (Inl FetchFailed, d)
         | NotOk \<Rightarrow> (Inl FetchFailed, d)
         | Ok userData \<Rightarrow>
             (case userData of
                [] \<Rightarrow> (Inl NoUserData, d)
              | epicUser # rest \<Rightarrow>
                  if fails e UserFindUnique then (Inl StoreThrew, d)
                  else
                    (case user_by_epicId d (accountId epicUser) of
                       None \<Rightarrow>
                         (case user_create e d
                                 \<lparr>user_id = new_id, epicId = accountId epicUser,
                                  nickname = new_nickname epicUser, balance = 0,
                                  role = (if accountId epicUser \<in> set (adminIds e) then ADMIN
                                          else USER),
                                  isBanned = False, lastSubmission = None,
                                  refreshToken = rt\<rparr> of
                            None \<Rightarrow> (Inl StoreThrew, d)
                          | Some (u, d1) \<Rightarrow> (Inr u, d1))
                     | Some found \<Rightarrow>
                         (case user_update e d (user_id found)
                                 (\<lambda>w. w\<lparr>nickname := (case displayName epicUser of
                                                          Some n \<Rightarrow> n | None \<Rightarrow> nickname w),
                                        refreshToken := (case rt of
                                                           Some t \<Rightarrow> Some t
                                                         | None \<Rightarrow> refreshToken w)\<rparr>) of
                            None \<Rightarrow> (Inl StoreThrew, d)
                          | Some (u, d1) \<Rightarrow> (Inr u, d1))))))"

section \<open>The system as a transition system\<close>

text \<open>
  One request to one of the routes above; \<open>step\<close> is the state the request leaves
  behind when it is handled from its first line to its answer with no other request in
  between. The server does not handle requests that way: a handler gives way at every
  \<open>await\<close>. \<open>step\<close>, \<open>run\<close> and \<open>reachable\<close> are therefore the behaviour of
  requests that do not overlap, and the states they reach are among the states of the
  server, not all of them; what overlapping requests do to a submission is stated with
  the two steps of the review and delete handlers.
\<close>

datatype call =
    Login "string option" "string option" fetched string
  | Review string review_body
  | BulkReview bulk_body
  | UpdateUser string update_body
  | AddBalance string balance_body
  | Create create_body "upload option" string string
  | Delete string

fun step :: "env \<Rightarrow> db \<Rightarrow> request \<Rightarrow> call \<Rightarrow> db" where
  "step e d req (Login rt account_id response new_id) =
     snd (verify_callback e d rt account_id response new_id)"
| "step e d req (Review sid body) = snd (PATCH_submissions_review e d req sid body)"
| "step e d req (BulkReview body) = snd (PATCH_submissions_bulk_review e d req body)"
| "step e d req (UpdateUser tid body) = snd (PATCH_users e d req tid body)"
| "step e d req (AddBalance tid body) = snd (POST_users_add_balance e d req tid body)"
| "step e d req (Create body file fname new_id) =
     snd (POST_submissions e d req body file fname new_id)"
| "step e d req (Delete sid) = snd (DELETE_submissions e d req sid)"

definition empty_db :: db where
  "empty_db = \<lparr>users = [], submissions = Map.empty, payouts = [], admin_logs = [], uploads = {}\<rparr>"

inductive reachable :: "db \<Rightarrow> bool" where
  reachable_empty: "reachable empty_db"
| reachable_step: "reachable d \<Longrightarrow> reachable (step e d req c)"

text \<open>The state after a history of requests, each with its environment and session.\<close>

fun run :: "db \<Rightarrow> (env \<times> request \<times> call) list \<Rightarrow> db" where
  "run d [] = d"
| "run d ((e, req, c) # rest) = run (step e d req c) rest"

section \<open>Sample data\<close>

text \<open>A small store and the requests the examples below run against it.\<close>

definition env0 :: env where
  "env0 = \<lparr>fails = no_faults, now = 1000, MAX_FILE_SIZE = None, ADMIN_EPIC_IDS = None,
            delete_unlinks = True\<rparr>"

definition root :: user where
  "root = \<lparr>user_id = ''u1'', epicId = ''e1'', nickname = ''Root'', balance = 0, role = ADMIN,
           isBanned = False, lastSubmission = None, refreshToken = None\<rparr>"

definition alice :: user where
  "alice = \<lparr>user_id = ''u2'', epicId = ''e2'', nickname = ''Alice'', balance = 10, role = USER,
            isBanned = False, lastSubmission = None, refreshToken = None\<rparr>"

definition bob :: user where
  "bob = \<lparr>user_id = ''u3'', epicId = ''e3'', nickname = ''Bob'', balance = 0, role = USER,
          isBanned = False, lastSubmission = None, refreshToken = None\<rparr>"

definition carol :: user where
  "carol = \<lparr>user_id = ''u4'', epicId = ''e4'', nickname = ''Carol'', balance = 0,
            role = MODERATOR, isBanned = False, lastSubmission = None, refreshToken = None\<rparr>"

definition clip :: submission where
  "clip = \<lparr>submission_id = ''s1'', userId = ''u2'', fileUrl = ''/uploads/f1.png'',
           fileName = ''win.png'', fileType = IMAGE, fileSize = 2048,
           category = ''Solo Win'', description = None, status = PENDING,
           rejectReason = None, reviewedBy = None, reviewedAt = None\<rparr>"

definition db0 :: db where
  "db0 = \<lparr>users = [root, alice, bob, carol], submissions = [''s1'' \<mapsto> clip], payouts = [],
          admin_logs = [], uploads = {''f1.png''}\<rparr>"

definition as_user :: "user \<Rightarrow> request" where
  "as_user u = \<lparr>req_user = Some u, wants_json = True\<rparr>"

text \<open>The same store after the admin \<open>root\<close> has approved the submission.\<close>

definition approved_clip :: submission where
  "approved_clip = clip\<lparr>status := APPROVED, reviewedBy := Some ''u1'', reviewedAt := Some 1000\<rparr>"

definition db1 :: db where
  "db1 = db0\<lparr>submissions := [''s1'' \<mapsto> approved_clip],
            admin_logs := [\<lparr>log_adminId = ''u1'', action = ''REVIEW_SUBMISSION'',
                           details = [Txt ''APPROVED'', Txt '' submission '', Txt ''s1'',
                                      Txt '' from '', Txt ''Alice'']\<rparr>]\<rparr>"

text \<open>
  The same store with a second submission, of \<open>bob\<close> and still PENDING, beside the
  approved one.
\<close>

definition replay :: submission where
  "replay = \<lparr>submission_id = ''s2'', userId = ''u3'', fileUrl = ''/uploads/f2.mp4'',
             fileName = ''clutch.mp4'', fileType = VIDEO, fileSize = 4096,
             category = ''Clutch Play'', description = Some ''1v4'', status = PENDING,
             rejectReason = None, reviewedBy = None, reviewedAt = None\<rparr>"

definition db2 :: db where
  "db2 = db1\<lparr>submissions := [''s1'' \<mapsto> approved_clip, ''s2'' \<mapsto> replay],
            uploads := {''f1.png'', ''f2.mp4''}\<rparr>"

definition bulk_approve :: "string list \<Rightarrow> bulk_body" where
  "bulk_approve ids =
     \<lparr>bb_submissionIds = Some ids, bb_status = Some ''APPROVED'', bb_rejectReason = None\<rparr>"

definition approve :: review_body where
  "approve = \<lparr>rb_status = Some ''APPROVED'', rb_rejectReason = None, rb_bonusAmount = None\<rparr>"

definition reject_because :: "string \<Rightarrow> review_body" where
  "reject_because r =
     \<lparr>rb_status = Some ''REJECTED'', rb_rejectReason = Some r, rb_bonusAmount = None\<rparr>"

definition approve_with_bonus :: "real \<Rightarrow> review_body" where
  "approve_with_bonus b =
     \<lparr>rb_status = Some ''APPROVED'', rb_rejectReason = None, rb_bonusAmount = Some b\<rparr>"

definition approve_with_reason :: "string \<Rightarrow> review_body" where
  "approve_with_reason r =
     \<lparr>rb_status = Some ''APPROVED'', rb_rejectReason = Some r, rb_bonusAmount = None\<rparr>"

text \<open>The environment in which the store call \<open>c\<close>, and no other, throws.\<close>

definition env_failing :: "dbcall \<Rightarrow> env" where
  "env_failing c = env0\<lparr>fails := (\<lambda>x. x = c)\<rparr>"

text \<open>
  A history from the empty store: the account \<open>e1\<close> of the allow-list and the account
  \<open>e2\<close> log in, the second uploads an image, the first approves it and sends a reject
  reason along.
\<close>

definition env1 :: env where
  "env1 = env0\<lparr>ADMIN_EPIC_IDS := Some ''e1''\<rparr>"

definition anonymous :: request where
  "anonymous = \<lparr>req_user = None, wants_json = False\<rparr>"

definition history :: "(env \<times> request \<times> call) list" where
  "history =
     [(env1, anonymous,
       Login None (Some ''e1'') (Ok [\<lparr>accountId = ''e1'', displayName = Some ''Root''\<rparr>]) ''u1''),
      (env1, anonymous,
       Login None (Some ''e2'') (Ok [\<lparr>accountId = ''e2'', displayName = Some ''Alice''\<rparr>]) ''u2''),
      (env1, as_user (alice\<lparr>balance := 0\<rparr>),
       Create \<lparr>cb_category = Some ''Solo Win'', cb_description = None\<rparr>
         (Some \<lparr>originalname = ''win.png'', mimetype = ''image/png'', upload_size = 2048\<rparr>)
         ''f1.png'' ''s1''),
      (env1, as_user root, Review ''s1'' (approve_with_reason ''spam''))]"

text \<open>The user a first login of the account \<open>abc123\<close> creates.\<close>

definition newcomer :: user where
  "newcomer = \<lparr>user_id = ''u9'', epicId = ''abc123'', nickname = ''User_abc123'', balance = 0,
               role = USER, isBanned = False, lastSubmission = None, refreshToken = None\<rparr>"

text \<open>A banned user, the owner of the submission \<open>s1\<close>, and an upload.\<close>

definition mallory :: user where
  "mallory = alice\<lparr>isBanned := True\<rparr>"

definition png :: upload where
  "png = \<lparr>originalname = ''ace.png'', mimetype = ''image/png'', upload_size = 4096\<rparr>"

definition huge :: upload where
  "huge = png\<lparr>upload_size := 104857601\<rparr>"

definition pdf :: upload where
  "pdf = \<lparr>originalname = ''rules.pdf'', mimetype = ''application/pdf'', upload_size = 4096\<rparr>"

definition solo_win :: create_body where
  "solo_win = \<lparr>cb_category = Some ''Solo Win'', cb_description = None\<rparr>"

definition one_letter :: create_body where
  "one_letter = \<lparr>cb_category = Some ''x'', cb_description = None\<rparr>"

text \<open>
  Two reviews of \<open>s1\<close> that overlap: what each has read while the submission was
  PENDING, and the state after the first has written.
\<close>

definition granted :: "review_value \<times> submission \<times> user option" where
  "granted = (\<lparr>rv_status = APPROVED, rv_rejectReason = None, rv_bonusAmount = Some 50\<rparr>,
              clip, Some alice)"

definition refusal :: "review_value \<times> submission \<times> user option" where
  "refusal = (\<lparr>rv_status = REJECTED, rv_rejectReason = Some ''late'', rv_bonusAmount = None\<rparr>,
              clip, Some alice)"

definition after_first :: db where
  "after_first = snd (review_write env0 db0 root ''s1'' granted)"

text \<open>A store in which the admin \<open>root\<close> owns a PENDING submission.\<close>

definition own_clip :: submission where
  "own_clip = clip\<lparr>submission_id := ''s3'', userId := ''u1''\<rparr>"

definition db3 :: db where
  "db3 = db0\<lparr>submissions := [''s1'' \<mapsto> clip, ''s3'' \<mapsto> own_clip]\<rparr>"

definition reject_without_reason :: review_body where
  "reject_without_reason =
     \<lparr>rb_status = Some ''REJECTED'', rb_rejectReason = None, rb_bonusAmount = None\<rparr>"

section \<open>Unfolding the sample data\<close>

lemmas sample_defs = env0_def no_faults_def db0_def db1_def root_def alice_def bob_def carol_def
  clip_def approved_clip_def as_user_def approve_def reject_because_def reject_without_reason_def
  approve_with_bonus_def approve_with_reason_def env_failing_def env1_def anonymous_def
  replay_def db2_def bulk_approve_def newcomer_def mallory_def png_def
  solo_win_def one_letter_def huge_def pdf_def
  granted_def refusal_def own_clip_def db3_def


lemmas review_defs = PATCH_submissions_review_def review_handler_def reviewSubmissionSchema_def
  submission_update_def review_data_def review_bonus_def or_null_def user_by_id_def user_update_def
  payout_create_def logAdminAction_def review_details_def status_string_def

lemmas add_balance_defs = POST_users_add_balance_def add_balance_handler_def addBalanceSchema_def
  canModifyUser_def

lemmas bulk_review_defs = PATCH_submissions_bulk_review_def bulk_review_handler_def
  submission_updateMany_def is_pending_def bulk_data_def status_lower_def

lemmas create_defs = POST_submissions_def upload_then_create_def upload_single_def fileFilter_def
  allowedTypes_def fileSize_limit_def create_handler_def createSubmissionSchema_def
  submission_create_def unlink_def errorHandler_def

lemmas delete_defs = DELETE_submissions_def delete_handler_def submission_delete_def unlink_def
  unlink_by_url_def delete_read_def delete_write_def

lemmas verify_defs = verify_callback_def user_by_epicId_def user_create_def adminIds_def
  new_nickname_def slice_last_def

section \<open>Histories\<close>

lemma reachable_run: "reachable d \<Longrightarrow> reachable (run d h)"
proof (induction h arbitrary: d)
  case Nil
  then show ?case by simp
next
  case (Cons x h)
  obtain e req c where x: "x = (e, req, c)" by (cases x)
  from Cons.prems have "reachable (step e d req c)" by (rule reachable_step)
  then have "reachable (run (step e d req c) h)" by (rule Cons.IH)
  with x show ?case by simp
qed

section \<open>Frame lemmas\<close>

lemma logAdminAction_users [simp]: "users (logAdminAction e d a b c) = users d"
  by (simp add: logAdminAction_def)

lemma logAdminAction_submissions [simp]: "submissions (logAdminAction e d a b c) = submissions d"
  by (simp add: logAdminAction_def)

lemma logAdminAction_payouts [simp]: "payouts (logAdminAction e d a b c) = payouts d"
  by (simp add: logAdminAction_def)

lemma logAdminAction_uploads [simp]: "uploads (logAdminAction e d a b c) = uploads d"
  by (simp add: logAdminAction_def)

lemma user_update_roles:
  "(\<And>w. role (f w) = role w) \<Longrightarrow> user_update e d uid f = Some (w', d') \<Longrightarrow>
   map role (users d') = map role (users d)"
  by (auto simp: user_update_def split: if_splits option.splits)

lemma user_update_submissions:
  "user_update e d uid f = Some (w, d') \<Longrightarrow> submissions d' = submissions d"
  by (auto simp: user_update_def split: if_splits option.splits)

lemma payout_create_submissions:
  "payout_create e d p = Some (q, d') \<Longrightarrow> submissions d' = submissions d"
  by (auto simp: payout_create_def split: if_splits)

lemma user_create_submissions:
  "user_create e d u = Some (w, d') \<Longrightarrow> submissions d' = submissions d"
  by (auto simp: user_create_def split: if_splits)

lemma submission_update_submissions:
  "submission_update e d sid f = Some (x, d') \<Longrightarrow>
   \<exists>s. submissions d sid = Some s \<and> x = f s \<and> submissions d' = (submissions d)(sid \<mapsto> x)"
  by (auto simp: submission_update_def split: if_splits option.splits)

lemma review_bonus_submissions:
  "review_bonus e d u s v = (b, d') \<Longrightarrow> submissions d' = submissions d"
  by (auto simp: review_bonus_def split: option.splits prod.splits if_splits
        dest!: user_update_submissions payout_create_submissions)

lemma verify_callback_submissions:
  "submissions (snd (verify_callback e d rt a r n)) = submissions d"
  by (auto simp: verify_callback_def split: fetched.splits list.splits option.splits prod.splits
        dest!: user_update_submissions user_create_submissions)

lemma update_user_submissions:
  "submissions (snd (update_user_handler e d u tid body)) = submissions d"
  by (auto simp: update_user_handler_def split: sum.splits option.splits prod.splits
        dest!: user_update_submissions)

lemma add_balance_submissions:
  "submissions (snd (add_balance_handler e d u tid body)) = submissions d"
  by (auto simp: add_balance_handler_def Let_def split: sum.splits option.splits prod.splits
        dest!: user_update_submissions payout_create_submissions)

section \<open>Guards\<close>

lemmas guard_defs = admin_only_def authenticated_def isAuthenticated_def isAdmin_def

lemma admin_only_cases:
  "(\<exists>r. admin_only req d h = (Inl r, d)) \<or>
   (\<exists>u. req_user req = Some u \<and> \<not> isBanned u \<and> (role u = ADMIN \<or> role u = MODERATOR)
        \<and> admin_only req d h = h u)"
  by (auto simp: admin_only_def isAuthenticated_def isAdmin_def split: option.splits)

lemma authenticated_cases:
  "(\<exists>r. authenticated req d h = (Inl r, d)) \<or>
   (\<exists>u. req_user req = Some u \<and> \<not> isBanned u \<and> authenticated req d h = h u)"
  by (auto simp: authenticated_def isAuthenticated_def split: option.splits)

lemma admin_only_pass:
  "req_user req = Some u \<Longrightarrow> \<not> isBanned u \<Longrightarrow> role u = ADMIN \<or> role u = MODERATOR \<Longrightarrow>
   admin_only req d h = h u"
  by (auto simp: admin_only_def isAuthenticated_def isAdmin_def)

lemma admin_only_elim [consumes 1, case_names reject pass]:
  assumes "admin_only req d h = r"
    and "\<And>x. r = (Inl x, d) \<Longrightarrow> P"
    and "\<And>u. req_user req = Some u \<Longrightarrow> \<not> isBanned u \<Longrightarrow> role u = ADMIN \<or> role u = MODERATOR \<Longrightarrow>
           r = h u \<Longrightarrow> P"
  shows P
  using assms admin_only_cases[of req d h] by metis

lemma authenticated_pass:
  "req_user req = Some u \<Longrightarrow> \<not> isBanned u \<Longrightarrow> authenticated req d h = h u"
  by (simp add: authenticated_def isAuthenticated_def)

lemma authenticated_elim [consumes 1, case_names reject pass]:
  assumes "authenticated req d h = r"
    and "\<And>x. r = (Inl x, d) \<Longrightarrow> P"
    and "\<And>u. req_user req = Some u \<Longrightarrow> \<not> isBanned u \<Longrightarrow> r = h u \<Longrightarrow> P"
  shows P
  using assms authenticated_cases[of req d h] by metis

lemma isAuthenticated_banned:
  assumes "req_user req = Some u" "isBanned u"
  shows "isAuthenticated req
     = Inl (if wants_json req then Err 401 ''Authentication required'' else Redirect ''/'')"
  using assms by (simp add: isAuthenticated_def)

lemma authenticated_banned:
  assumes "req_user req = Some u" "isBanned u"
  shows "authenticated req d h
     = (Inl (if wants_json req then Err 401 ''Authentication required'' else Redirect ''/''), d)"
  using assms by (simp add: authenticated_def isAuthenticated_banned)

lemma admin_only_banned:
  assumes "req_user req = Some u" "isBanned u"
  shows "admin_only req d h
     = (Inl (if wants_json req then Err 401 ''Authentication required'' else Redirect ''/''), d)"
  using assms by (simp add: admin_only_def isAuthenticated_banned)

section \<open>Submissions under requests that do not overlap\<close>

lemma review_handler_submissions:
  "submissions (snd (review_handler e d u sid body)) = submissions d
   \<or> (\<exists>s v. submissions d sid = Some s \<and> status s = PENDING
          \<and> reviewSubmissionSchema body = Inr v
          \<and> submissions (snd (review_handler e d u sid body))
              = (submissions d)(sid \<mapsto> review_data e u v s))"
  by (auto simp: review_handler_def split: sum.splits option.splits prod.splits bool.splits
        dest!: submission_update_submissions review_bonus_submissions)

lemma review_handler_terminal:
  assumes "submissions d sid = Some s" "status s \<noteq> PENDING"
  shows "review_handler e d u sid body =
     (case reviewSubmissionSchema body of
        Inl m \<Rightarrow> (Inl (Err 400 m), d)
      | Inr v \<Rightarrow> if fails e SubmissionFindUnique then (Inl (Err 500 ''Failed to review submission''), d)
                 else (Inl (Err 400 ''Submission already reviewed''), d))"
  using assms by (simp add: review_handler_def split: sum.splits)

lemma reviewSubmissionSchema_status:
  "reviewSubmissionSchema b = Inr v \<Longrightarrow> rv_status v \<noteq> PENDING"
  by (auto simp: reviewSubmissionSchema_def split: option.splits if_splits)

lemma review_handler_success:
  assumes "review_handler e d u sid body = (Inr s', d')"
  shows "submissions d' sid = Some s' \<and> status s' \<noteq> PENDING"
proof -
  from assms obtain v s d1 b d2 where
    v: "reviewSubmissionSchema body = Inr v"
    and upd: "submission_update e d sid (review_data e u v) = Some (s', d1)"
    and bonus: "review_bonus e d1 u s v = (b, d2)"
    and d': "submissions d' = submissions d2"
    by (auto simp: review_handler_def
          split: sum.splits option.splits prod.splits bool.splits if_splits)
  from upd obtain s0 where "s' = review_data e u v s0" "submissions d1 = (submissions d)(sid \<mapsto> s')"
    by (auto dest!: submission_update_submissions)
  moreover have "submissions d2 = submissions d1"
    using bonus by (rule review_bonus_submissions)
  ultimately show ?thesis
    using d' reviewSubmissionSchema_status[OF v] by (simp add: review_data_def)
qed

lemma submission_updateMany_terminal:
  assumes "submission_updateMany e d ids f = Some (n, d')" "submissions d sid = Some s" "status s \<noteq> PENDING"
  shows "submissions d' sid = Some s"
  using assms by (auto simp: submission_updateMany_def is_pending_def split: if_splits)

lemma bulk_review_terminal:
  assumes "submissions d sid = Some s" "status s \<noteq> PENDING"
  shows "submissions (snd (bulk_review_handler e d u body)) sid = Some s"
  using assms
  by (auto simp: bulk_review_handler_def Let_def split: option.splits prod.splits
        dest: submission_updateMany_terminal)

lemma unlink_submissions [simp]: "submissions (unlink d f) = submissions d"
  by (simp add: unlink_def)

lemma unlink_by_url_submissions [simp]: "submissions (unlink_by_url e d url) = submissions d"
  by (simp add: unlink_by_url_def)

lemma submission_create_terminal:
  assumes "submission_create e d x = Some (y, d')" "submissions d sid = Some s"
  shows "submissions d' sid = Some s"
  using assms by (auto simp: submission_create_def split: if_splits)

lemma create_handler_existing:
  assumes "submissions d sid = Some s"
  shows "submissions (snd (create_handler e d u body file new_id)) sid = Some s"
  using assms
  by (auto simp: create_handler_def split: sum.splits option.splits prod.splits
        dest!: user_update_submissions dest: submission_create_terminal)

lemma upload_single_submissions:
  "upload_single e d file fname = (r, d') \<Longrightarrow> submissions d' = submissions d"
  by (auto simp: upload_single_def split: option.splits sum.splits if_splits)

lemma upload_then_create_existing:
  assumes "submissions d sid = Some s"
  shows "submissions (snd (upload_then_create e d u body upl fname new_id)) sid = Some s"
proof (cases "upload_single e d upl fname")
  case (Pair r d1)
  then have "submissions d1 = submissions d" by (rule upload_single_submissions)
  with assms Pair show ?thesis
    by (cases r) (simp_all add: upload_then_create_def create_handler_existing)
qed

lemma delete_handler_terminal:
  assumes "submissions d sid = Some s" "status s \<noteq> PENDING"
  shows "submissions (snd (delete_handler e d u sid')) sid = Some s"
  using assms
  by (auto simp: delete_handler_def Let_def submission_delete_def split: option.splits if_splits)

lemma review_handler_keeps_terminal:
  assumes "submissions d sid = Some s" "status s \<noteq> PENDING"
  shows "submissions (snd (review_handler e d u sid' body)) sid = Some s"
proof -
  from review_handler_submissions[of e d u sid' body] show ?thesis
  proof
    assume "submissions (snd (review_handler e d u sid' body)) = submissions d"
    with assms show ?thesis by simp
  next
    assume "\<exists>s v. submissions d sid' = Some s \<and> status s = PENDING
          \<and> reviewSubmissionSchema body = Inr v
          \<and> submissions (snd (review_handler e d u sid' body))
              = (submissions d)(sid' \<mapsto> review_data e u v s)"
    then obtain s0 v where "submissions d sid' = Some s0" "status s0 = PENDING"
      and eq: "submissions (snd (review_handler e d u sid' body))
              = (submissions d)(sid' \<mapsto> review_data e u v s0)"
      by blast
    with assms have "sid' \<noteq> sid" by auto
    with eq assms show ?thesis by simp
  qed
qed

lemma step_terminal:
  assumes "submissions d sid = Some s" "status s \<noteq> PENDING"
  shows "submissions (step e d req c) sid = Some s"
proof (cases c)
  case (Login rt a r n)
  then show ?thesis using assms by (simp add: verify_callback_submissions)
next
  case (Review sid' body)
  then show ?thesis
    using assms admin_only_cases[of req d "\<lambda>u. review_handler e d u sid' body"]
    by (auto simp: PATCH_submissions_review_def review_handler_keeps_terminal)
next
  case (BulkReview body)
  then show ?thesis
    using assms admin_only_cases[of req d "\<lambda>u. bulk_review_handler e d u body"]
    by (auto simp: PATCH_submissions_bulk_review_def bulk_review_terminal)
next
  case (UpdateUser tid body)
  then show ?thesis
    using assms admin_only_cases[of req d "\<lambda>u. update_user_handler e d u tid body"]
    by (auto simp: PATCH_users_def update_user_submissions)
next
  case (AddBalance tid body)
  then show ?thesis
    using assms admin_only_cases[of req d "\<lambda>u. add_balance_handler e d u tid body"]
    by (auto simp: POST_users_add_balance_def add_balance_submissions)
next
  case (Create body upl fname new_id)
  then show ?thesis
    using assms authenticated_cases[of req d "\<lambda>u. upload_then_create e d u body upl fname new_id"]
    by (auto simp: POST_submissions_def upload_then_create_existing)
next
  case (Delete sid')
  then show ?thesis
    using assms authenticated_cases[of req d "\<lambda>u. delete_handler e d u sid'"]
    by (auto simp: DELETE_submissions_def delete_handler_terminal)
qed

section \<open>Claim C1: balance credit and payout row\<close>

text \<open>
  When no store call throws, both routes credit the balance by the amount and append one
  COMPLETED payout row that names the admin, and one audit entry.
\<close>

lemma credit_without_faults:
  "map balance (users (snd (PATCH_submissions_review env0 db0 (as_user root) ''s1''
       (approve_with_bonus 50)))) = [0, 60, 0, 0]
   \<and> payouts (snd (PATCH_submissions_review env0 db0 (as_user root) ''s1''
       (approve_with_bonus 50)))
     = [\<lparr>payout_userId = ''u2'', amount = 50, reason = ''Approved submission: Solo Win'',
         adminId = ''u1'', payout_status = COMPLETED, completedAt = Some 1000\<rparr>]
   \<and> map balance (users (snd (POST_users_add_balance env0 db0 (as_user root) ''u2''
       \<lparr>ab_amount = Some 50, ab_reason = Some ''bonus''\<rparr>))) = [0, 60, 0, 0]
   \<and> payouts (snd (POST_users_add_balance env0 db0 (as_user root) ''u2''
       \<lparr>ab_amount = Some 50, ab_reason = Some ''bonus''\<rparr>))
     = [\<lparr>payout_userId = ''u2'', amount = 50, reason = ''bonus'', adminId = ''u1'',
         payout_status = COMPLETED, completedAt = Some 1000\<rparr>]
   \<and> map action (admin_logs (snd (POST_users_add_balance env0 db0 (as_user root) ''u2''
       \<lparr>ab_amount = Some 50, ab_reason = Some ''bonus''\<rparr>))) = [''ADD_BALANCE'']"
  by (simp add: review_defs add_balance_defs guard_defs sample_defs Let_def)

text \<open>
  Claim C1 asks that the increment of the balance and the insert of the COMPLETED payout
  row be one atomic unit, in the review with a bonus and in add-balance, and that no
  submission be APPROVED with its bonus uncredited. The code makes the writes one after
  the other (review) or side by side (\<open>Promise.all\<close> in add-balance) with no
  transaction, and its \<open>catch\<close> block answers 500 without undoing what was written.
  When the update of the user throws in a review with bonus 50, the submission stays
  APPROVED, no balance has changed and no payout row exists; when the insert of the payout
  throws, the balance has gone from 10 to 60 and no payout row exists. In add-balance a
  throw of the insert leaves the balance credited without a payout row, and a throw of
  the update leaves a payout row without a credit.
\<close>

theorem credit_is_not_atomic:
  "fst (PATCH_submissions_review (env_failing UserUpdate) db0 (as_user root) ''s1''
          (approve_with_bonus 50))
     = Inl (Err 500 ''Failed to review submission'')
   \<and> map_option status
        (submissions (snd (PATCH_submissions_review (env_failing UserUpdate) db0 (as_user root)
           ''s1'' (approve_with_bonus 50))) ''s1'') = Some APPROVED
   \<and> users (snd (PATCH_submissions_review (env_failing UserUpdate) db0 (as_user root)
           ''s1'' (approve_with_bonus 50))) = users db0
   \<and> payouts (snd (PATCH_submissions_review (env_failing UserUpdate) db0 (as_user root)
           ''s1'' (approve_with_bonus 50))) = []
   \<and> fst (PATCH_submissions_review (env_failing PayoutCreate) db0 (as_user root) ''s1''
          (approve_with_bonus 50))
     = Inl (Err 500 ''Failed to review submission'')
   \<and> map balance (users (snd (PATCH_submissions_review (env_failing PayoutCreate) db0
           (as_user root) ''s1'' (approve_with_bonus 50)))) = [0, 60, 0, 0]
   \<and> map balance (users db0) = [0, 10, 0, 0]
   \<and> payouts (snd (PATCH_submissions_review (env_failing PayoutCreate) db0 (as_user root)
           ''s1'' (approve_with_bonus 50))) = []
   \<and> fst (POST_users_add_balance (env_failing PayoutCreate) db0 (as_user root) ''u2''
          \<lparr>ab_amount = Some 50, ab_reason = Some ''bonus''\<rparr>)
     = Inl (Err 500 ''Failed to add balance'')
   \<and> map balance (users (snd (POST_users_add_balance (env_failing PayoutCreate) db0
           (as_user root) ''u2'' \<lparr>ab_amount = Some 50, ab_reason = Some ''bonus''\<rparr>)))
     = [0, 60, 0, 0]
   \<and> payouts (snd (POST_users_add_balance (env_failing PayoutCreate) db0
           (as_user root) ''u2'' \<lparr>ab_amount = Some 50, ab_reason = Some ''bonus''\<rparr>)) = []
   \<and> map balance (users (snd (POST_users_add_balance (env_failing UserUpdate) db0
           (as_user root) ''u2'' \<lparr>ab_amount = Some 50, ab_reason = Some ''bonus''\<rparr>)))
     = [0, 10, 0, 0]
   \<and> length (payouts (snd (POST_users_add_balance (env_failing UserUpdate) db0
           (as_user root) ''u2'' \<lparr>ab_amount = Some 50, ab_reason = Some ''bonus''\<rparr>))) = 1"
  by (simp add: review_defs add_balance_defs guard_defs sample_defs)

section \<open>Claim C2: the status leaves PENDING at most once\<close>

subsection \<open>Requests that do not overlap\<close>

lemma review_route_terminal:
  assumes "submissions d sid = Some s" "status s \<noteq> PENDING"
  shows "snd (PATCH_submissions_review e d req sid body) = d"
    and "isl (fst (PATCH_submissions_review e d req sid body))"
proof -
  obtain r where r: "admin_only req d (\<lambda>u. review_handler e d u sid body) = r" by simp
  then have "snd r = d \<and> isl (fst r)"
  proof (cases rule: admin_only_elim)
    case (reject x)
    then show ?thesis by simp
  next
    case (pass u)
    then show ?thesis using assms
      by (simp add: review_handler_terminal split: sum.splits)
  qed
  with r show "snd (PATCH_submissions_review e d req sid body) = d"
    and "isl (fst (PATCH_submissions_review e d req sid body))"
    by (simp_all add: PATCH_submissions_review_def)
qed

lemma review_route_already_reviewed:
  assumes "submissions d sid = Some s" "status s \<noteq> PENDING"
    and "req_user req = Some u" "\<not> isBanned u" "role u = ADMIN \<or> role u = MODERATOR"
    and "reviewSubmissionSchema body = Inr v" "\<not> fails e SubmissionFindUnique"
  shows "fst (PATCH_submissions_review e d req sid body) = Inl (Err 400 ''Submission already reviewed'')"
  using assms
  by (simp add: PATCH_submissions_review_def admin_only_pass[of req u] review_handler_terminal)

lemma review_route_success:
  assumes "PATCH_submissions_review e d req sid body = (Inr s', d')"
  shows "submissions d' sid = Some s' \<and> status s' \<noteq> PENDING"
proof -
  from assms have "admin_only req d (\<lambda>u. review_handler e d u sid body) = (Inr s', d')"
    by (simp add: PATCH_submissions_review_def)
  then show ?thesis
  proof (cases rule: admin_only_elim)
    case (reject x)
    then show ?thesis by simp
  next
    case (pass u)
    then show ?thesis using review_handler_success[of e d u sid body s' d'] by simp
  qed
qed

lemma review_db0_approve:
  "PATCH_submissions_review env0 db0 (as_user root) ''s1'' approve = (Inr approved_clip, db1)"
  by (simp add: PATCH_submissions_review_def review_handler_def reviewSubmissionSchema_def
      guard_defs sample_defs submission_update_def review_data_def review_bonus_def or_null_def
      user_by_id_def logAdminAction_def review_details_def status_string_def)

text \<open>
  When each request is handled to its end before the next begins, a submission whose
  status is not PENDING is left as it is by every request; a review of it answers with an
  error and changes nothing, the 400 "Submission already reviewed" when the request
  passes the guards, its body passes the schema and the lookup does not throw; and after
  a review that succeeded, a second review of the same id is answered in that way.
\<close>

lemma review_one_at_a_time:
  "(submissions d sid = Some s \<and> status s \<noteq> PENDING \<longrightarrow>
       submissions (step e d req c) sid = Some s
     \<and> snd (PATCH_submissions_review e d req sid body) = d
     \<and> isl (fst (PATCH_submissions_review e d req sid body))
     \<and> (req_user req = Some u \<and> \<not> isBanned u \<and> (role u = ADMIN \<or> role u = MODERATOR)
          \<and> reviewSubmissionSchema body = Inr v \<and> \<not> fails e SubmissionFindUnique \<longrightarrow>
         fst (PATCH_submissions_review e d req sid body)
           = Inl (Err 400 ''Submission already reviewed'')))
   \<and> (PATCH_submissions_review e d req sid body = (Inr s', d') \<longrightarrow>
       submissions d' sid = Some s' \<and> status s' \<noteq> PENDING
     \<and> snd (PATCH_submissions_review e2 d' req2 sid body2) = d'
     \<and> isl (fst (PATCH_submissions_review e2 d' req2 sid body2))
     \<and> (req_user req2 = Some u2 \<and> \<not> isBanned u2 \<and> (role u2 = ADMIN \<or> role u2 = MODERATOR)
          \<and> reviewSubmissionSchema body2 = Inr v2 \<and> \<not> fails e2 SubmissionFindUnique \<longrightarrow>
         fst (PATCH_submissions_review e2 d' req2 sid body2)
           = Inl (Err 400 ''Submission already reviewed'')))"
proof (intro conjI impI)
  assume a: "submissions d sid = Some s \<and> status s \<noteq> PENDING"
  then show "submissions (step e d req c) sid = Some s" by (simp add: step_terminal)
  from a show "snd (PATCH_submissions_review e d req sid body) = d"
    by (simp add: review_route_terminal(1))
  from a show "isl (fst (PATCH_submissions_review e d req sid body))"
    by (simp add: review_route_terminal(2))
  assume "req_user req = Some u \<and> \<not> isBanned u \<and> (role u = ADMIN \<or> role u = MODERATOR)
          \<and> reviewSubmissionSchema body = Inr v \<and> \<not> fails e SubmissionFindUnique"
  with a show "fst (PATCH_submissions_review e d req sid body)
           = Inl (Err 400 ''Submission already reviewed'')"
    using review_route_already_reviewed[of d sid s req u body v e] by blast
next
  assume "PATCH_submissions_review e d req sid body = (Inr s', d')"
  then have b: "submissions d' sid = Some s' \<and> status s' \<noteq> PENDING"
    by (rule review_route_success)
  then show "submissions d' sid = Some s'" and "status s' \<noteq> PENDING" by simp_all
  from b show "snd (PATCH_submissions_review e2 d' req2 sid body2) = d'"
    by (simp add: review_route_terminal(1))
  from b show "isl (fst (PATCH_submissions_review e2 d' req2 sid body2))"
    by (simp add: review_route_terminal(2))
  assume "req_user req2 = Some u2 \<and> \<not> isBanned u2 \<and> (role u2 = ADMIN \<or> role u2 = MODERATOR)
          \<and> reviewSubmissionSchema body2 = Inr v2 \<and> \<not> fails e2 SubmissionFindUnique"
  with b show "fst (PATCH_submissions_review e2 d' req2 sid body2)
           = Inl (Err 400 ''Submission already reviewed'')"
    using review_route_already_reviewed[of d' sid s' req2 u2 body2 v2 e2] by blast
qed

text \<open>
  The schema is checked before the submission is looked up: a body that fails it is
  answered with the validation error whatever the status of the submission.
\<close>

lemma review_invalid_body_on_terminal:
  "submissions db1 ''s1'' = Some approved_clip
   \<and> status approved_clip \<noteq> PENDING
   \<and> PATCH_submissions_review env0 db1 (as_user root) ''s1'' reject_without_reason
       = (Inl (Err 400 ''rejectReason is required''), db1)
   \<and> kind_of (Err 400 ''rejectReason is required'') = ValidationError
   \<and> kind_of (Err 400 ''rejectReason is required'') \<noteq> InvalidStateError"
  by (simp add: PATCH_submissions_review_def review_handler_def reviewSubmissionSchema_def
      guard_defs sample_defs)

subsection \<open>Requests that overlap\<close>

text \<open>The handler is its two steps, run on the same state.\<close>

lemma review_handler_steps:
  "review_handler e d u sid body =
     (case review_read e d sid body of
        Inl r \<Rightarrow> (Inl r, d)
      | Inr p \<Rightarrow> review_write e d u sid p)"
  by (simp add: review_handler_def review_read_def review_write_def split: sum.splits option.splits)

text \<open>
  Claim C2 asks that the status of a submission leave PENDING at most once, by one of the
  two transitions PENDING to APPROVED and PENDING to REJECTED, and that a review of a
  submission that is no longer PENDING fail with the invalid-state error and change
  nothing. The handler checks the status when it looks the submission up and then
  updates by id alone (the bulk route puts \<open>status: 'PENDING'\<close> in the filter of its
  update). Two reviews of \<open>s1\<close> that have both looked it up while it was PENDING
  both write: the first approves it and credits the bonus of 50, the second then rejects
  it. Both answer with success; the submission has gone from PENDING to APPROVED and
  from APPROVED to REJECTED, and stands REJECTED with the bonus paid. The second review
  would have been refused had it looked the submission up after the first had written.
\<close>

theorem overlapping_reviews_both_write:
  "review_read env0 db0 ''s1'' (approve_with_bonus 50) = Inr granted
   \<and> review_read env0 db0 ''s1'' (reject_because ''late'') = Inr refusal
   \<and> fst (review_write env0 db0 root ''s1'' granted)
       = Inr (clip\<lparr>status := APPROVED, reviewedBy := Some ''u1'', reviewedAt := Some 1000\<rparr>)
   \<and> after_first = snd (review_write env0 db0 root ''s1'' granted)
   \<and> map_option status (submissions after_first ''s1'') = Some APPROVED
   \<and> fst (review_write env0 after_first carol ''s1'' refusal)
       = Inr (clip\<lparr>status := REJECTED, rejectReason := Some ''late'',
                   reviewedBy := Some ''u4'', reviewedAt := Some 1000\<rparr>)
   \<and> map_option (\<lambda>s. (status s, rejectReason s, reviewedBy s))
        (submissions (snd (review_write env0 after_first carol ''s1'' refusal)) ''s1'')
       = Some (REJECTED, Some ''late'', Some ''u4'')
   \<and> map balance (users (snd (review_write env0 after_first carol ''s1'' refusal)))
       = [0, 60, 0, 0]
   \<and> map amount (payouts (snd (review_write env0 after_first carol ''s1'' refusal))) = [50]
   \<and> review_read env0 after_first ''s1'' (reject_because ''late'')
       = Inl (Err 400 ''Submission already reviewed'')"
  by (simp add: after_first_def review_read_def review_write_def review_defs sample_defs)

section \<open>Claim C3: reviewer and reject reason\<close>

text \<open>
  Claim C3 asks that in every reachable state a submission carry a reject reason only
  when it is REJECTED. The review route stores \<open>value.rejectReason || null\<close> whatever
  the decision, and the schema lets a reason through with APPROVED: the history below,
  from the empty store, ends with the submission APPROVED and its reject reason
  \<open>spam\<close>. The bulk route stores the reason only for REJECTED: the same body there
  leaves the reason absent.
\<close>

theorem approved_submission_with_reject_reason:
  "reachable (run empty_db history)
   \<and> map_option (\<lambda>s. (status s, rejectReason s)) (submissions (run empty_db history) ''s1'')
       = Some (APPROVED, Some ''spam'')
   \<and> map_option (\<lambda>s. (status s, rejectReason s))
        (submissions (snd (PATCH_submissions_bulk_review env0 db0 (as_user root)
           \<lparr>bb_submissionIds = Some [''s1''], bb_status = Some ''APPROVED'',
            bb_rejectReason = Some ''spam''\<rparr>)) ''s1'')
       = Some (APPROVED, None)"
proof -
  have "reachable (run empty_db history)"
    by (rule reachable_run) (rule reachable_empty)
  moreover have "map_option (\<lambda>s. (status s, rejectReason s)) (submissions (run empty_db history) ''s1'')
       = Some (APPROVED, Some ''spam'')"
    by (simp add: history_def empty_db_def verify_defs create_defs review_defs guard_defs
        sample_defs)
  moreover have "map_option (\<lambda>s. (status s, rejectReason s))
        (submissions (snd (PATCH_submissions_bulk_review env0 db0 (as_user root)
           \<lparr>bb_submissionIds = Some [''s1''], bb_status = Some ''APPROVED'',
            bb_rejectReason = Some ''spam''\<rparr>)) ''s1'')
       = Some (APPROVED, None)"
    by (simp add: bulk_review_defs or_null_def logAdminAction_def guard_defs sample_defs)
  ultimately show ?thesis by blast
qed

section \<open>Claim C4: bulk review\<close>

lemma submission_updateMany_result:
  assumes "submission_updateMany e d ids f = Some (n, d1)"
  shows "users d1 = users d" and "payouts d1 = payouts d"
    and "submissions d1 = (\<lambda>x. if x \<in> set ids \<and> is_pending d x
                                 then map_option f (submissions d x) else submissions d x)"
    and "n = length (filter (is_pending d) (remdups ids))"
  using assms by (auto simp: submission_updateMany_def split: if_splits)

lemma changed_by_updateMany:
  assumes "\<And>s. status (f s) \<noteq> PENDING"
  shows "{x. (if x \<in> set ids \<and> is_pending d x then map_option f (submissions d x)
              else submissions d x) \<noteq> submissions d x}
         = {x \<in> set ids. is_pending d x}"
proof -
  have "map_option f (submissions d x) \<noteq> submissions d x" if "is_pending d x" for x
  proof -
    from that obtain s where s: "submissions d x = Some s" "status s = PENDING"
      by (auto simp: is_pending_def split: option.splits)
    with assms[of s] have "f s \<noteq> s" by auto
    with s show ?thesis by simp
  qed
  then show ?thesis by auto
qed

lemma count_pending: "length (filter P (remdups ids)) = card {x \<in> set ids. P x}"
  using distinct_card[of "filter P (remdups ids)"] by simp

lemma bulk_data_status: "st \<noteq> PENDING \<Longrightarrow> status (bulk_data e u st rr s) \<noteq> PENDING"
  by (simp add: bulk_data_def)

lemma bulk_review_handler_cases:
  assumes "bulk_review_handler e d u body = (r, d')"
  shows "(isl r \<and> d' = d) \<or>
     (\<exists>ids st n d1. bb_submissionIds body = Some ids \<and> st \<noteq> PENDING
        \<and> submission_updateMany e d ids (bulk_data e u st (bb_rejectReason body)) = Some (n, d1)
        \<and> r = Inr n \<and> users d' = users d1 \<and> payouts d' = payouts d1
        \<and> submissions d' = submissions d1)"
  using assms
  by (auto simp: bulk_review_handler_def Let_def split: option.splits if_splits)

lemma bulk_review_handler_effect:
  assumes "bulk_review_handler e d u body = (r, d')"
  shows "users d' = users d" and "payouts d' = payouts d"
    and "submissions d' sid \<noteq> submissions d sid \<Longrightarrow>
           is_pending d sid \<and> \<not> is_pending d' sid
           \<and> (\<exists>ids. bb_submissionIds body = Some ids \<and> sid \<in> set ids)"
    and "r = Inr n \<Longrightarrow>
           n = card {x. submissions d' x \<noteq> submissions d x}
           \<and> (\<exists>ids. bb_submissionIds body = Some ids
                 \<and> {x. submissions d' x \<noteq> submissions d x} = {x \<in> set ids. is_pending d x})"
proof -
  from bulk_review_handler_cases[OF assms]
  consider (err) "isl r" "d' = d"
    | (ok) ids st m d1 where "bb_submissionIds body = Some ids" "st \<noteq> PENDING"
        "submission_updateMany e d ids (bulk_data e u st (bb_rejectReason body)) = Some (m, d1)"
        "r = Inr m" "users d' = users d1" "payouts d' = payouts d1" "submissions d' = submissions d1"
    by blast
  note cs = this
  show "users d' = users d"
    by (cases rule: cs) (simp_all add: submission_updateMany_result)
  show "payouts d' = payouts d"
    by (cases rule: cs) (simp_all add: submission_updateMany_result)
  show "is_pending d sid \<and> \<not> is_pending d' sid
           \<and> (\<exists>ids. bb_submissionIds body = Some ids \<and> sid \<in> set ids)"
    if ch: "submissions d' sid \<noteq> submissions d sid"
  proof (cases rule: cs)
    case err
    with ch show ?thesis by simp
  next
    case (ok ids st m d1)
    from ok(3) have sub: "submissions d1 = (\<lambda>x. if x \<in> set ids \<and> is_pending d x
         then map_option (bulk_data e u st (bb_rejectReason body)) (submissions d x)
         else submissions d x)"
      by (rule submission_updateMany_result)
    with ch ok(7) have in_ids: "sid \<in> set ids" and pend: "is_pending d sid"
      by (auto split: if_splits)
    then have "\<not> is_pending d' sid"
      using sub ok(2,7) by (auto simp: is_pending_def bulk_data_def split: option.splits)
    with in_ids pend ok(1) show ?thesis by simp
  qed
  show "n = card {x. submissions d' x \<noteq> submissions d x}
           \<and> (\<exists>ids. bb_submissionIds body = Some ids
                 \<and> {x. submissions d' x \<noteq> submissions d x} = {x \<in> set ids. is_pending d x})"
    if r: "r = Inr n"
  proof (cases rule: cs)
    case err
    with r show ?thesis by simp
  next
    case (ok ids st m d1)
    from ok(3) have sub: "submissions d1 = (\<lambda>x. if x \<in> set ids \<and> is_pending d x
         then map_option (bulk_data e u st (bb_rejectReason body)) (submissions d x)
         else submissions d x)"
      and m: "m = length (filter (is_pending d) (remdups ids))"
      by (rule submission_updateMany_result)+
    have "{x. submissions d' x \<noteq> submissions d x} = {x \<in> set ids. is_pending d x}"
      unfolding ok(7) sub
      by (rule changed_by_updateMany) (simp add: bulk_data_status ok(2))
    with m r ok(1,4) show ?thesis by (simp add: count_pending)
  qed
qed

lemma bulk_review_handler_success:
  assumes "bb_submissionIds body = Some ids" "ids \<noteq> []"
    and "bb_status body = Some ''APPROVED''
         \<or> bb_status body = Some ''REJECTED'' \<and> or_null (bb_rejectReason body) \<noteq> None"
    and "\<not> fails e SubmissionUpdateMany"
  shows "fst (bulk_review_handler e d u body) = Inr (length (filter (is_pending d) (remdups ids)))"
  using assms
  by (auto simp: bulk_review_handler_def Let_def submission_updateMany_def)

lemma bulk_review_handler_empty:
  assumes "bb_submissionIds body = Some []"
  shows "bulk_review_handler e d u body = (Inl (Err 400 ''No submissions selected''), d)"
  using assms by (simp add: bulk_review_handler_def)

text \<open>
  Claim C4, as the code has it. Whatever the request, a bulk review changes no user and
  no payout (it grants no bonus), and a submission it changes was PENDING, is listed
  among the ids and is no longer PENDING afterwards. When it answers with a count, the
  count is the number of submissions it changed, and those are the listed ids that were
  PENDING: ids that are unknown, listed twice or already reviewed are passed over without
  an error. It answers with the count whenever the request passes the guards, the list is
  not empty, the status is APPROVED or REJECTED (with a reason that is not empty for
  REJECTED) and the update does not throw. An empty list is refused with the 400
  "No submissions selected" and nothing changes.
\<close>

theorem bulk_review_changes_pending_only:
  assumes "PATCH_submissions_bulk_review e d req body = (r, d')"
  shows "users d' = users d \<and> payouts d' = payouts d
    \<and> (submissions d' sid \<noteq> submissions d sid \<longrightarrow>
         is_pending d sid \<and> \<not> is_pending d' sid
         \<and> (\<exists>ids. bb_submissionIds body = Some ids \<and> sid \<in> set ids))
    \<and> (r = Inr n \<longrightarrow>
         n = card {x. submissions d' x \<noteq> submissions d x}
         \<and> (\<exists>ids. bb_submissionIds body = Some ids
               \<and> {x. submissions d' x \<noteq> submissions d x} = {x \<in> set ids. is_pending d x}))
    \<and> (req_user req = Some u \<and> \<not> isBanned u \<and> (role u = ADMIN \<or> role u = MODERATOR)
         \<and> bb_submissionIds body = Some ids \<and> ids \<noteq> []
         \<and> (bb_status body = Some ''APPROVED''
              \<or> bb_status body = Some ''REJECTED'' \<and> or_null (bb_rejectReason body) \<noteq> None)
         \<and> \<not> fails e SubmissionUpdateMany \<longrightarrow>
         r = Inr (length (filter (is_pending d) (remdups ids))))
    \<and> (req_user req = Some u \<and> \<not> isBanned u \<and> (role u = ADMIN \<or> role u = MODERATOR)
         \<and> bb_submissionIds body = Some [] \<longrightarrow>
         r = Inl (Err 400 ''No submissions selected'') \<and> d' = d)"
proof -
  from assms have a: "admin_only req d (\<lambda>u. bulk_review_handler e d u body) = (r, d')"
    by (simp add: PATCH_submissions_bulk_review_def)
  have frame: "users d' = users d \<and> payouts d' = payouts d
    \<and> (submissions d' sid \<noteq> submissions d sid \<longrightarrow>
         is_pending d sid \<and> \<not> is_pending d' sid
         \<and> (\<exists>ids. bb_submissionIds body = Some ids \<and> sid \<in> set ids))
    \<and> (r = Inr n \<longrightarrow>
         n = card {x. submissions d' x \<noteq> submissions d x}
         \<and> (\<exists>ids. bb_submissionIds body = Some ids
               \<and> {x. submissions d' x \<noteq> submissions d x} = {x \<in> set ids. is_pending d x}))"
    using a
  proof (cases rule: admin_only_elim)
    case (reject x)
    then show ?thesis by simp
  next
    case (pass w)
    then have h: "bulk_review_handler e d w body = (r, d')" by simp
    show ?thesis
      using bulk_review_handler_effect(1,2)[OF h] bulk_review_handler_effect(3)[OF h, of sid]
        bulk_review_handler_effect(4)[OF h, of n]
      by blast
  qed
  have ok: "r = Inr (length (filter (is_pending d) (remdups ids)))"
    if "req_user req = Some u \<and> \<not> isBanned u \<and> (role u = ADMIN \<or> role u = MODERATOR)
         \<and> bb_submissionIds body = Some ids \<and> ids \<noteq> []
         \<and> (bb_status body = Some ''APPROVED''
              \<or> bb_status body = Some ''REJECTED'' \<and> or_null (bb_rejectReason body) \<noteq> None)
         \<and> \<not> fails e SubmissionUpdateMany"
  proof -
    from that a have "bulk_review_handler e d u body = (r, d')"
      by (simp add: admin_only_pass[of req u])
    moreover from that
    have "fst (bulk_review_handler e d u body) = Inr (length (filter (is_pending d) (remdups ids)))"
      by (intro bulk_review_handler_success) simp_all
    ultimately show ?thesis by simp
  qed
  have empty: "r = Inl (Err 400 ''No submissions selected'') \<and> d' = d"
    if "req_user req = Some u \<and> \<not> isBanned u \<and> (role u = ADMIN \<or> role u = MODERATOR)
         \<and> bb_submissionIds body = Some []"
  proof -
    from that a have "bulk_review_handler e d u body = (r, d')"
      by (simp add: admin_only_pass[of req u])
    with that show ?thesis by (simp add: bulk_review_handler_empty)
  qed
  from frame ok empty show ?thesis by blast
qed

theorem bulk_review_changes_pending_only_witness:
  "req_user (as_user carol) = Some carol \<and> \<not> isBanned carol \<and> role carol = MODERATOR
   \<and> \<not> fails env0 SubmissionUpdateMany
   \<and> map_option status (submissions db2 ''s1'') = Some APPROVED
   \<and> map_option status (submissions db2 ''s2'') = Some PENDING
   \<and> submissions db2 ''s9'' = None
   \<and> fst (PATCH_submissions_bulk_review env0 db2 (as_user carol)
            (bulk_approve [''s1'', ''s2'', ''s2'', ''s9''])) = Inr 1
   \<and> card {x. submissions (snd (PATCH_submissions_bulk_review env0 db2 (as_user carol)
                   (bulk_approve [''s1'', ''s2'', ''s2'', ''s9'']))) x \<noteq> submissions db2 x} = 1
   \<and> submissions (snd (PATCH_submissions_bulk_review env0 db2 (as_user carol)
                   (bulk_approve [''s1'', ''s2'', ''s2'', ''s9'']))) ''s1'' = Some approved_clip
   \<and> map_option status (submissions (snd (PATCH_submissions_bulk_review env0 db2 (as_user carol)
                   (bulk_approve [''s1'', ''s2'', ''s2'', ''s9'']))) ''s2'') = Some APPROVED
   \<and> users (snd (PATCH_submissions_bulk_review env0 db2 (as_user carol)
                   (bulk_approve [''s1'', ''s2'', ''s2'', ''s9'']))) = users db2
   \<and> payouts (snd (PATCH_submissions_bulk_review env0 db2 (as_user carol)
                   (bulk_approve [''s1'', ''s2'', ''s2'', ''s9'']))) = payouts db2"
proof -
  let ?X = "PATCH_submissions_bulk_review env0 db2 (as_user carol)
              (bulk_approve [''s1'', ''s2'', ''s2'', ''s9''])"
  have count: "fst ?X = Inr 1"
    by (simp add: bulk_review_defs logAdminAction_def guard_defs sample_defs)
  then have run: "?X = (Inr 1, snd ?X)" by (simp add: prod_eq_iff)
  have stored: "submissions (snd ?X) ''s1'' = Some approved_clip
     \<and> map_option status (submissions (snd ?X) ''s2'') = Some APPROVED"
    by (simp add: bulk_review_defs logAdminAction_def guard_defs sample_defs)
  have given: "req_user (as_user carol) = Some carol \<and> \<not> isBanned carol \<and> role carol = MODERATOR
   \<and> \<not> fails env0 SubmissionUpdateMany
   \<and> map_option status (submissions db2 ''s1'') = Some APPROVED
   \<and> map_option status (submissions db2 ''s2'') = Some PENDING
   \<and> submissions db2 ''s9'' = None"
    by (simp add: sample_defs)
  from bulk_review_changes_pending_only[OF run, where n = 1]
  have "users (snd ?X) = users db2 \<and> payouts (snd ?X) = payouts db2
    \<and> 1 = card {x. submissions (snd ?X) x \<noteq> submissions db2 x}"
    by blast
  with count stored given show ?thesis by simp
qed

text \<open>
  The claim as it is written fails at the empty list of ids: the route does not answer
  with the count 0, it refuses the request.
\<close>

theorem bulk_review_empty_list:
  "PATCH_submissions_bulk_review env0 db2 (as_user carol) (bulk_approve [])
     = (Inl (Err 400 ''No submissions selected''), db2)
   \<and> kind_of (Err 400 ''No submissions selected'') = ValidationError"
  by (simp add: bulk_review_defs guard_defs sample_defs)

section \<open>Claim C5: the reject reason of a review\<close>

text \<open>
  Claim C5 asks that the reject reason of a REJECTED review be present, not empty and at
  most 200 characters long. The schema of the review route has no upper bound on the
  reason (the form of the admin page has, \<open>maxlength="200"\<close>, and the schema of
  add-balance bounds its reason by 200): a reason of 201 characters is accepted and
  stored. The rest of the claim holds at the same store: an empty or absent reason is
  answered with the validation error, and neither the submission nor the audit log
  changes.
\<close>

theorem review_accepts_long_reject_reason:
  "length (replicate 201 CHR ''x'') = 201
   \<and> fst (PATCH_submissions_review env0 db0 (as_user root) ''s1''
            (reject_because (replicate 201 CHR ''x'')))
       = Inr (clip\<lparr>status := REJECTED, rejectReason := Some (replicate 201 CHR ''x''),
                   reviewedBy := Some ''u1'', reviewedAt := Some 1000\<rparr>)
   \<and> map_option (\<lambda>s. (status s, map_option length (rejectReason s)))
        (submissions (snd (PATCH_submissions_review env0 db0 (as_user root) ''s1''
            (reject_because (replicate 201 CHR ''x'')))) ''s1'')
       = Some (REJECTED, Some 201)
   \<and> PATCH_submissions_review env0 db0 (as_user root) ''s1'' (reject_because '''')
       = (Inl (Err 400 ''rejectReason is not allowed to be empty''), db0)
   \<and> PATCH_submissions_review env0 db0 (as_user root) ''s1'' reject_without_reason
       = (Inl (Err 400 ''rejectReason is required''), db0)"
  by (simp add: review_defs guard_defs sample_defs)

section \<open>Claim C6: who may modify a user\<close>

lemma update_user_self:
  "snd (update_user_handler e d actor (user_id actor) body) = d \<and>
   isl (fst (update_user_handler e d actor (user_id actor) body))"
  by (simp add: update_user_handler_def canModifyUser_def split: sum.splits)

lemma add_balance_self:
  "snd (add_balance_handler e d actor (user_id actor) body) = d \<and>
   isl (fst (add_balance_handler e d actor (user_id actor) body))"
  by (simp add: add_balance_handler_def canModifyUser_def split: sum.splits prod.splits)

lemma update_user_roles:
  assumes "role actor \<noteq> ADMIN"
  shows "map role (users (snd (update_user_handler e d actor tid body))) = map role (users d)"
proof -
  have "\<And>v w. uv_role v = None \<Longrightarrow> role (apply_value v w) = role w"
    by (simp add: apply_value_def)
  then show ?thesis using assms
    by (auto simp: update_user_handler_def split: sum.splits option.splits
          dest!: user_update_roles[rotated])
qed

lemma update_user_role_refused:
  assumes "role actor \<noteq> ADMIN" "ub_role body \<noteq> None"
  shows "isl (fst (update_user_handler e d actor tid body))"
  using assms
  by (auto simp: update_user_handler_def updateUserSchema_def
        split: sum.splits option.splits if_splits)

text \<open>
  \<open>canModifyUser\<close> is false when the target is the actor, whatever the actor's role,
  and true for every other target (so in particular for an ADMIN or a MODERATOR, the only
  roles the guard \<open>isAdmin\<close> lets reach it). The two routes that consult the rule,
  \<open>PATCH /users/:id\<close> and \<open>POST /users/:id/add-balance\<close>, answer a request whose
  target is the actor with an error and leave the state as it was. A change of role needs
  an actor whose role is ADMIN: under any other actor \<open>PATCH /users/:id\<close> leaves the role
  of every user as it was, and a body that carries a role is answered with an error.
\<close>

lemma canModifyUser_policy:
  "\<not> canModifyUser actor (user_id actor)
   \<and> (tid \<noteq> user_id actor \<longrightarrow> canModifyUser actor tid)
   \<and> snd (update_user_handler e d actor (user_id actor) body) = d
   \<and> isl (fst (update_user_handler e d actor (user_id actor) body))
   \<and> snd (add_balance_handler e d actor (user_id actor) bb) = d
   \<and> isl (fst (add_balance_handler e d actor (user_id actor) bb))
   \<and> (role actor \<noteq> ADMIN \<longrightarrow>
        map role (users (snd (update_user_handler e d actor tid body))) = map role (users d))
   \<and> (role actor \<noteq> ADMIN \<and> ub_role body \<noteq> None \<longrightarrow>
        isl (fst (update_user_handler e d actor tid body)))"
  using update_user_self[of e d actor body] add_balance_self[of e d actor bb]
    update_user_roles[of actor e d tid body] update_user_role_refused[of actor body e d tid]
  by (simp add: canModifyUser_def)

lemma canModifyUser_policy_example:
  "''u2'' \<noteq> user_id carol
   \<and> canModifyUser carol ''u2''
   \<and> \<not> canModifyUser carol (user_id carol)
   \<and> role carol \<noteq> ADMIN
   \<and> ub_role \<lparr>ub_role = Some ''ADMIN'', ub_isBanned = None, ub_balance = None\<rparr> \<noteq> None
   \<and> update_user_handler env0 db0 carol ''u2''
        \<lparr>ub_role = Some ''ADMIN'', ub_isBanned = None, ub_balance = None\<rparr>
      = (Inl (Err 403 ''Only super admins can change roles''), db0)
   \<and> update_user_handler env0 db0 carol ''u4''
        \<lparr>ub_role = None, ub_isBanned = None, ub_balance = Some 500\<rparr>
      = (Inl (Err 403 ''Cannot modify this user''), db0)
   \<and> add_balance_handler env0 db0 carol ''u4'' \<lparr>ab_amount = Some 50, ab_reason = Some ''bonus''\<rparr>
      = (Inl (Err 403 ''Cannot modify this user''), db0)"
  using canModifyUser_policy[of carol "''u2''" env0 db0
      "\<lparr>ub_role = Some ''ADMIN'', ub_isBanned = None, ub_balance = None\<rparr>"
      "\<lparr>ab_amount = Some 50, ab_reason = Some ''bonus''\<rparr>"]
  by (simp add: canModifyUser_def carol_def update_user_handler_def add_balance_handler_def
        updateUserSchema_def addBalanceSchema_def parse_role_def env0_def no_faults_def
        user_by_id_def db0_def root_def alice_def bob_def)

text \<open>
  Claim C6 asks that \<open>CanModifyUser(actor, actor.id)\<close> be false for every actor, so that
  no actor modifies their own balance, role or ban through the admin path, that it be
  true for every other target when the actor is ADMIN or MODERATOR, and that a change of
  role need an ADMIN. The function and the two routes that call it do as the claim says
  (above). The review route, an admin route that credits a balance, does not call it and
  does not compare the owner of the submission with the admin: \<open>root\<close>, for whom
  \<open>canModifyUser\<close> is false on their own id and whom add-balance refuses, approves
  their own submission with a bonus of 1000 and is credited 1000, with a payout row whose
  user and admin are both \<open>root\<close>.
\<close>

theorem admin_credits_own_balance:
  "\<not> canModifyUser root (user_id root)
   \<and> POST_users_add_balance env0 db3 (as_user root) ''u1''
         \<lparr>ab_amount = Some 1000, ab_reason = Some ''bonus''\<rparr>
       = (Inl (Err 403 ''Cannot modify this user''), db3)
   \<and> map_option userId (submissions db3 ''s3'') = Some (user_id root)
   \<and> map balance (users db3) = [0, 10, 0, 0]
   \<and> fst (PATCH_submissions_review env0 db3 (as_user root) ''s3'' (approve_with_bonus 1000))
       = Inr (own_clip\<lparr>status := APPROVED, reviewedBy := Some ''u1'', reviewedAt := Some 1000\<rparr>)
   \<and> map balance (users (snd (PATCH_submissions_review env0 db3 (as_user root) ''s3''
         (approve_with_bonus 1000)))) = [1000, 10, 0, 0]
   \<and> payouts (snd (PATCH_submissions_review env0 db3 (as_user root) ''s3''
         (approve_with_bonus 1000)))
       = [\<lparr>payout_userId = ''u1'', amount = 1000, reason = ''Approved submission: Solo Win'',
           adminId = ''u1'', payout_status = COMPLETED, completedAt = Some 1000\<rparr>]"
  by (simp add: review_defs add_balance_defs guard_defs sample_defs)

section \<open>Claim C7: deleting a submission\<close>




lemma delete_handler_steps:
  "delete_handler e d u sid =
     (case delete_read e d u sid of
        Inl r \<Rightarrow> (Inl r, d)
      | Inr s \<Rightarrow> delete_write e d sid s)"
  by (simp add: delete_handler_def delete_read_def delete_write_def split: option.splits)






text \<open>
  The delete is by id alone. When a review is handled between the lookup of a delete and
  its second step, the delete removes a submission that is APPROVED by then.
\<close>

lemma overlapping_delete_removes_approved:
  "delete_read env0 db0 alice ''s1'' = Inr clip
   \<and> PATCH_submissions_review env0 db0 (as_user root) ''s1'' approve = (Inr approved_clip, db1)
   \<and> map_option status (submissions db1 ''s1'') = Some APPROVED
   \<and> fst (delete_write env0 db1 ''s1'' clip) = Inr ()
   \<and> submissions (snd (delete_write env0 db1 ''s1'' clip)) ''s1'' = None"
  by (simp add: delete_defs review_defs guard_defs sample_defs Let_def)

section \<open>Claim C8: the first login of an account\<close>

lemma slice_last_short: "length s \<le> n \<Longrightarrow> slice_last n s = s"
  by (simp add: slice_last_def)

lemma slice_last_long: "n \<le> length s \<Longrightarrow> length (slice_last n s) = n"
  by (simp add: slice_last_def)

lemma verify_callback_new:
  assumes "user_by_epicId d (accountId epicUser) = None"
    and "verify_callback e d rt account_id (Ok (epicUser # rest)) new_id = (Inr u, d')"
  shows "u = \<lparr>user_id = new_id, epicId = accountId epicUser,
              nickname = new_nickname epicUser, balance = 0,
              role = (if accountId epicUser \<in> set (adminIds e) then ADMIN else USER),
              isBanned = False, lastSubmission = None, refreshToken = rt\<rparr>"
    and "users d' = users d @ [u]"
  using assms
  by (auto simp: verify_callback_def user_create_def split: if_splits)

lemma verify_callback_creates:
  assumes "user_by_epicId d (accountId epicUser) = None" "user_by_id d new_id = None"
    and "account_id = Some a" "a \<noteq> []"
    and "\<not> fails e UserFindUnique" "\<not> fails e UserCreate"
  shows "\<not> isl (fst (verify_callback e d rt account_id (Ok (epicUser # rest)) new_id))"
  using assms by (simp add: verify_callback_def user_create_def)

text \<open>
  Claim C8, as the code has it. When the account the provider reports has no user yet,
  a login that succeeds appends one user to the table: its role is ADMIN when the
  account id is a field of the comma-separated allow-list \<open>ADMIN_EPIC_IDS\<close> and USER
  otherwise; its nickname is the display name of the provider when that is present and
  not empty, and otherwise \<open>User_\<close> followed by the last 8 characters of the account
  id, which are the whole id when the id has 8 characters or fewer. The login succeeds
  when the token carries an account id, the id of the new row is free and the two store
  calls do not throw. For the account id \<open>abc123\<close> outside the allow-list the user is
  created with role USER and nickname \<open>User_abc123\<close>.
\<close>

theorem first_login_creates_user:
  "user_by_epicId d (accountId epicUser) = None \<longrightarrow>
     (verify_callback e d rt account_id (Ok (epicUser # rest)) new_id = (Inr u, d') \<longrightarrow>
        users d' = users d @ [u]
        \<and> epicId u = accountId epicUser
        \<and> (role u = ADMIN \<longleftrightarrow> accountId epicUser \<in> set (adminIds e))
        \<and> (role u = USER \<longleftrightarrow> accountId epicUser \<notin> set (adminIds e))
        \<and> (displayName epicUser = Some n \<and> n \<noteq> [] \<longrightarrow> nickname u = n)
        \<and> (displayName epicUser = None \<or> displayName epicUser = Some [] \<longrightarrow>
             nickname u = ''User_'' @ slice_last 8 (accountId epicUser))
        \<and> balance u = 0 \<and> \<not> isBanned u)
     \<and> (length (accountId epicUser) \<le> 8 \<longrightarrow>
          slice_last 8 (accountId epicUser) = accountId epicUser)
     \<and> (8 \<le> length (accountId epicUser) \<longrightarrow>
          length (slice_last 8 (accountId epicUser)) = 8
          \<and> slice_last 8 (accountId epicUser)
              = drop (length (accountId epicUser) - 8) (accountId epicUser))
     \<and> (account_id = Some a \<and> a \<noteq> [] \<and> user_by_id d new_id = None
          \<and> \<not> fails e UserFindUnique \<and> \<not> fails e UserCreate \<longrightarrow>
          \<not> isl (fst (verify_callback e d rt account_id (Ok (epicUser # rest)) new_id)))"
proof (intro impI conjI)
  assume absent: "user_by_epicId d (accountId epicUser) = None"
  {
    assume run: "verify_callback e d rt account_id (Ok (epicUser # rest)) new_id = (Inr u, d')"
    note u = verify_callback_new(1)[OF absent run]
    show "users d' = users d @ [u]" by (rule verify_callback_new(2)[OF absent run])
    show "epicId u = accountId epicUser" by (simp add: u)
    show "role u = ADMIN \<longleftrightarrow> accountId epicUser \<in> set (adminIds e)" by (simp add: u)
    show "role u = USER \<longleftrightarrow> accountId epicUser \<notin> set (adminIds e)" by (simp add: u)
    show "balance u = 0" by (simp add: u)
    show "\<not> isBanned u" by (simp add: u)
    {
      assume "displayName epicUser = Some n \<and> n \<noteq> []"
      then show "nickname u = n" by (simp add: u new_nickname_def)
    }
    {
      assume "displayName epicUser = None \<or> displayName epicUser = Some []"
      then show "nickname u = ''User_'' @ slice_last 8 (accountId epicUser)"
        by (auto simp: u new_nickname_def)
    }
  }
  {
    assume "length (accountId epicUser) \<le> 8"
    then show "slice_last 8 (accountId epicUser) = accountId epicUser"
      by (rule slice_last_short)
  }
  {
    assume "8 \<le> length (accountId epicUser)"
    then show "length (slice_last 8 (accountId epicUser)) = 8" by (rule slice_last_long)
    show "slice_last 8 (accountId epicUser)
              = drop (length (accountId epicUser) - 8) (accountId epicUser)"
      by (simp add: slice_last_def)
  }
  {
    assume "account_id = Some a \<and> a \<noteq> [] \<and> user_by_id d new_id = None
          \<and> \<not> fails e UserFindUnique \<and> \<not> fails e UserCreate"
    with absent
    show "\<not> isl (fst (verify_callback e d rt account_id (Ok (epicUser # rest)) new_id))"
      by (simp add: verify_callback_creates)
  }
qed

theorem first_login_creates_user_witness:
  "user_by_epicId db0 ''abc123'' = None
   \<and> user_by_id db0 ''u9'' = None
   \<and> \<not> fails env1 UserFindUnique \<and> \<not> fails env1 UserCreate
   \<and> adminIds env1 = [''e1'']
   \<and> verify_callback env1 db0 None (Some ''abc123'')
         (Ok [\<lparr>accountId = ''abc123'', displayName = None\<rparr>]) ''u9''
       = (Inr newcomer, db0\<lparr>users := users db0 @ [newcomer]\<rparr>)
   \<and> role newcomer = USER
   \<and> nickname newcomer = ''User_'' @ slice_last 8 ''abc123''
   \<and> slice_last 8 ''abc123'' = ''abc123''
   \<and> slice_last 8 ''0123456789abcdef'' = ''89abcdef''
   \<and> fst (verify_callback env1 empty_db None (Some ''e1'')
            (Ok [\<lparr>accountId = ''e1'', displayName = Some ''Root''\<rparr>]) ''u1'') = Inr root"
proof -
  let ?acc = "\<lparr>accountId = ''abc123'', displayName = None\<rparr>"
  have absent: "user_by_epicId db0 (accountId ?acc) = None"
    by (simp add: user_by_epicId_def sample_defs)
  have free: "user_by_id db0 ''u9'' = None"
    by (simp add: user_by_id_def sample_defs)
  have env: "\<not> fails env1 UserFindUnique \<and> \<not> fails env1 UserCreate \<and> adminIds env1 = [''e1'']"
    by (simp add: adminIds_def sample_defs)
  have run: "verify_callback env1 db0 None (Some ''abc123'') (Ok [?acc]) ''u9''
       = (Inr newcomer, db0\<lparr>users := users db0 @ [newcomer]\<rparr>)"
    by (simp add: verify_defs user_by_id_def sample_defs)
  note T = first_login_creates_user[where d = db0 and epicUser = ?acc and e = env1
      and rt = None and account_id = "Some ''abc123''" and rest = "[]" and new_id = "''u9''"
      and u = newcomer and d' = "db0\<lparr>users := users db0 @ [newcomer]\<rparr>",
      THEN mp, OF absent]
  from T[THEN conjunct1, THEN mp, OF run]
  have "role newcomer = USER \<longleftrightarrow> accountId ?acc \<notin> set (adminIds env1)"
    and "displayName ?acc = None \<or> displayName ?acc = Some [] \<longrightarrow>
         nickname newcomer = ''User_'' @ slice_last 8 (accountId ?acc)"
    by blast+
  with env have created: "role newcomer = USER"
    "nickname newcomer = ''User_'' @ slice_last 8 ''abc123''"
    by simp_all
  from T[THEN conjunct2, THEN conjunct1]
  have short: "slice_last 8 ''abc123'' = ''abc123''" by simp
  have long: "slice_last 8 ''0123456789abcdef'' = ''89abcdef''"
    by (simp add: slice_last_def)
  have admin: "fst (verify_callback env1 empty_db None (Some ''e1'')
            (Ok [\<lparr>accountId = ''e1'', displayName = Some ''Root''\<rparr>]) ''u1'') = Inr root"
    by (simp add: verify_defs user_by_id_def empty_db_def sample_defs)
  from absent free env run created short long admin show ?thesis by simp
qed

text \<open>
  The claim as it is written fails at its own example: \<open>abc123\<close> has six characters,
  \<open>slice(-8)\<close> returns the whole of it, and the nickname is \<open>User_abc123\<close>, not
  \<open>User_abc123ab\<close>.
\<close>

theorem first_login_abc123:
  "user_by_epicId empty_db ''abc123'' = None
   \<and> ''abc123'' \<notin> set (adminIds env1)
   \<and> fst (verify_callback env1 empty_db None (Some ''abc123'')
            (Ok [\<lparr>accountId = ''abc123'', displayName = None\<rparr>]) ''u1'')
       = Inr \<lparr>user_id = ''u1'', epicId = ''abc123'', nickname = ''User_abc123'', balance = 0,
               role = USER, isBanned = False, lastSubmission = None, refreshToken = None\<rparr>
   \<and> ''User_abc123'' \<noteq> ''User_abc123ab''"
  by (simp add: verify_defs user_by_id_def empty_db_def sample_defs)

section \<open>Claim C9: a Create that is refused\<close>

lemma createSubmissionSchema_refuses:
  "isl (createSubmissionSchema body) \<longleftrightarrow>
     (case cb_category body of
        None \<Rightarrow> True
      | Some c \<Rightarrow>
          length c < 2 \<or> 50 < length c
          \<or> (case cb_description body of None \<Rightarrow> False | Some x \<Rightarrow> x = [] \<or> 500 < length x))"
  by (auto simp: createSubmissionSchema_def split: option.splits)

lemma createSubmissionSchema_message:
  "createSubmissionSchema body = Inl m \<Longrightarrow> kind_of (Err 400 m) = ValidationError"
  by (auto simp: createSubmissionSchema_def split: option.splits if_splits)

lemma upload_single_cases:
  "upload_single e d upl fname =
     (case upl of
        None \<Rightarrow> (Inr None, d)
      | Some f \<Rightarrow>
          if mimetype f \<notin> set allowedTypes then
            (Inl \<lparr>err_code = None, err_name = ''Error'', err_status = None\<rparr>, d)
          else if fileSize_limit e < upload_size f then
            (Inl \<lparr>err_code = Some ''LIMIT_FILE_SIZE'', err_name = ''MulterError'',
                  err_status = None\<rparr>, d)
          else (Inr (Some (f, fname)), d\<lparr>uploads := insert fname (uploads d)\<rparr>))"
  by (simp add: upload_single_def fileFilter_def split: option.splits)

lemma create_handler_invalid:
  assumes "\<not> isBanned u" "createSubmissionSchema body = Inl m"
  shows "create_handler e d u body staged new_id = (Inl (Err 400 m), d)"
  using assms by (simp add: create_handler_def)

lemma create_handler_no_file:
  assumes "\<not> isBanned u" "createSubmissionSchema body = Inr v"
  shows "create_handler e d u body None new_id = (Inl (Err 400 ''File is required''), d)"
  using assms by (simp add: create_handler_def split: prod.splits)

lemma user_update_users_only:
  "user_update e d uid f = Some (w, d') \<Longrightarrow> uploads d' = uploads d \<and> payouts d' = payouts d"
  by (auto simp: user_update_def split: if_splits option.splits)

lemma upload_then_create_refused:
  assumes "\<not> isBanned u"
  shows "upl = Some f \<and> mimetype f \<notin> set allowedTypes \<longrightarrow>
           isl (fst (upload_then_create e d u body upl fname new_id))
           \<and> snd (upload_then_create e d u body upl fname new_id) = d"
    and "upl = Some f \<and> mimetype f \<in> set allowedTypes \<and> fileSize_limit e < upload_size f \<longrightarrow>
           upload_then_create e d u body upl fname new_id = (Inl (Err 400 ''File too large''), d)"
    and "createSubmissionSchema body = Inl m
         \<and> (upl = None \<or> upl = Some f \<and> mimetype f \<in> set allowedTypes
                            \<and> upload_size f \<le> fileSize_limit e) \<longrightarrow>
           fst (upload_then_create e d u body upl fname new_id) = Inl (Err 400 m)
           \<and> submissions (snd (upload_then_create e d u body upl fname new_id)) = submissions d
           \<and> users (snd (upload_then_create e d u body upl fname new_id)) = users d"
    and "createSubmissionSchema body = Inr v \<and> upl = None \<longrightarrow>
           upload_then_create e d u body upl fname new_id
             = (Inl (Err 400 ''File is required''), d)"
  using assms
  by (auto simp: upload_then_create_def upload_single_cases errorHandler_def
        create_handler_invalid create_handler_no_file)

lemma upload_then_create_record:
  assumes "submissions (snd (upload_then_create e d u body upl fname new_id)) \<noteq> submissions d"
  shows "\<not> isBanned u \<and> \<not> isl (createSubmissionSchema body)
     \<and> (\<exists>f. upl = Some f \<and> mimetype f \<in> set allowedTypes
              \<and> upload_size f \<le> fileSize_limit e)"
proof -
  have banned: "isBanned u \<Longrightarrow> submissions (snd (create_handler e x u body st new_id)) = submissions x"
    for x st
    by (simp add: create_handler_def)
  have invalid: "isl (createSubmissionSchema body) \<Longrightarrow>
      submissions (snd (create_handler e x u body st new_id)) = submissions x" for x st
    by (cases "createSubmissionSchema body") (simp_all add: create_handler_def)
  have nofile: "submissions (snd (create_handler e x u body None new_id)) = submissions x" for x
    by (simp add: create_handler_def split: sum.splits prod.splits)
  show ?thesis
  proof (cases upl)
    case None
    with assms nofile show ?thesis
      by (simp add: upload_then_create_def upload_single_cases)
  next
    case (Some f)
    show ?thesis
    proof (cases "mimetype f \<in> set allowedTypes \<and> upload_size f \<le> fileSize_limit e")
      case False
      with assms Some show ?thesis
        by (auto simp: upload_then_create_def upload_single_cases)
    next
      case True
      with assms Some
      have "submissions (snd (create_handler e (d\<lparr>uploads := insert fname (uploads d)\<rparr>) u body
              (Some (f, fname)) new_id)) \<noteq> submissions d"
        by (simp add: upload_then_create_def upload_single_cases)
      with banned[of "d\<lparr>uploads := insert fname (uploads d)\<rparr>" "Some (f, fname)"]
        invalid[of "d\<lparr>uploads := insert fname (uploads d)\<rparr>" "Some (f, fname)"]
      have "\<not> isBanned u \<and> \<not> isl (createSubmissionSchema body)" by auto
      with Some True show ?thesis by simp
    qed
  qed
qed

text \<open>
  Claim C9, as the code has it. A Create changes the table of submissions only when the
  user is not banned, the category has 2 to 50 characters, the description, if there is
  one, has 1 to 500, and a file of an allowed type within the size limit comes with the
  request: a Create refused for any of the reasons of the claim creates no record. A
  banned user is refused by the guard, before the upload, with the answer of the guard
  (401 or redirect) and not with a validation error; a file of a type that is not allowed
  or over the limit is refused by the upload middleware and no file is left in the upload
  directory, the file over the limit with the 400 "File too large"; a category or
  description the schema refuses is answered with the schema's 400 validation error and
  neither a submission nor a user changes.
\<close>

theorem create_refused_creates_no_record:
  assumes "POST_submissions e d req body upl fname new_id = (r, d')"
  shows "(submissions d' \<noteq> submissions d \<longrightarrow>
           (\<exists>u f. req_user req = Some u \<and> \<not> isBanned u
                 \<and> \<not> isl (createSubmissionSchema body)
                 \<and> upl = Some f \<and> mimetype f \<in> set allowedTypes
                 \<and> upload_size f \<le> fileSize_limit e))
    \<and> (isl (createSubmissionSchema body) \<longleftrightarrow>
         (case cb_category body of
            None \<Rightarrow> True
          | Some c \<Rightarrow>
              length c < 2 \<or> 50 < length c
              \<or> (case cb_description body of
                    None \<Rightarrow> False
                  | Some x \<Rightarrow> x = [] \<or> 500 < length x)))
    \<and> (req_user req = Some u \<and> isBanned u \<longrightarrow>
         r = Inl (if wants_json req then Err 401 ''Authentication required'' else Redirect ''/'')
         \<and> d' = d)
    \<and> (req_user req = Some u \<and> \<not> isBanned u \<and> upl = Some f
         \<and> mimetype f \<notin> set allowedTypes \<longrightarrow>
         isl r \<and> d' = d)
    \<and> (req_user req = Some u \<and> \<not> isBanned u \<and> upl = Some f
         \<and> mimetype f \<in> set allowedTypes \<and> fileSize_limit e < upload_size f \<longrightarrow>
         r = Inl (Err 400 ''File too large'') \<and> d' = d)
    \<and> (req_user req = Some u \<and> \<not> isBanned u \<and> createSubmissionSchema body = Inl m
         \<and> (upl = None \<or> upl = Some f \<and> mimetype f \<in> set allowedTypes
                            \<and> upload_size f \<le> fileSize_limit e) \<longrightarrow>
         r = Inl (Err 400 m) \<and> kind_of (Err 400 m) = ValidationError
         \<and> submissions d' = submissions d \<and> users d' = users d)"
proof -
  from assms
  have a: "authenticated req d (\<lambda>u. upload_then_create e d u body upl fname new_id) = (r, d')"
    by (simp add: POST_submissions_def)
  have created: "\<exists>u f. req_user req = Some u \<and> \<not> isBanned u
                 \<and> \<not> isl (createSubmissionSchema body)
                 \<and> upl = Some f \<and> mimetype f \<in> set allowedTypes
                 \<and> upload_size f \<le> fileSize_limit e"
    if changed: "submissions d' \<noteq> submissions d"
    using a
  proof (cases rule: authenticated_elim)
    case (reject x)
    with changed show ?thesis by simp
  next
    case (pass w)
    with changed
    have "submissions (snd (upload_then_create e d w body upl fname new_id)) \<noteq> submissions d"
      by (metis snd_conv)
    from upload_then_create_record[OF this] pass(1) show ?thesis by blast
  qed
  have banned: "r = Inl (if wants_json req then Err 401 ''Authentication required''
                         else Redirect ''/'') \<and> d' = d"
    if h: "req_user req = Some u \<and> isBanned u"
  proof -
    from h have "authenticated req d (\<lambda>u. upload_then_create e d u body upl fname new_id)
        = (Inl (if wants_json req then Err 401 ''Authentication required''
                else Redirect ''/''), d)"
      by (intro authenticated_banned[of req u]) simp_all
    with a show ?thesis by simp
  qed
  have passed: "upload_then_create e d u body upl fname new_id = (r, d')"
    if "req_user req = Some u" "\<not> isBanned u"
    using that a by (simp add: authenticated_pass[of req u])
  have mime: "isl r \<and> d' = d"
    if h: "req_user req = Some u \<and> \<not> isBanned u \<and> upl = Some f
         \<and> mimetype f \<notin> set allowedTypes"
  proof -
    from h have "upload_then_create e d u body upl fname new_id = (r, d')"
      by (intro passed) simp_all
    with upload_then_create_refused(1)[of u upl f e d body fname new_id] h
    show ?thesis by simp
  qed
  have large: "r = Inl (Err 400 ''File too large'') \<and> d' = d"
    if h: "req_user req = Some u \<and> \<not> isBanned u \<and> upl = Some f
         \<and> mimetype f \<in> set allowedTypes \<and> fileSize_limit e < upload_size f"
  proof -
    from h have "upload_then_create e d u body upl fname new_id = (r, d')"
      by (intro passed) simp_all
    with upload_then_create_refused(2)[of u upl f e d body fname new_id] h
    show ?thesis by simp
  qed
  have schema: "r = Inl (Err 400 m) \<and> kind_of (Err 400 m) = ValidationError
         \<and> submissions d' = submissions d \<and> users d' = users d"
    if h: "req_user req = Some u \<and> \<not> isBanned u \<and> createSubmissionSchema body = Inl m
         \<and> (upl = None \<or> upl = Some f \<and> mimetype f \<in> set allowedTypes
                            \<and> upload_size f \<le> fileSize_limit e)"
  proof -
    from h have run: "upload_then_create e d u body upl fname new_id = (r, d')"
      by (intro passed) simp_all
    from h have "createSubmissionSchema body = Inl m" by blast
    then have "kind_of (Err 400 m) = ValidationError"
      by (rule createSubmissionSchema_message)
    moreover from upload_then_create_refused(3)[of u body m upl f e d fname new_id] h
    have "fst (upload_then_create e d u body upl fname new_id) = Inl (Err 400 m)
           \<and> submissions (snd (upload_then_create e d u body upl fname new_id)) = submissions d
           \<and> users (snd (upload_then_create e d u body upl fname new_id)) = users d"
      by blast
    ultimately show ?thesis using run by simp
  qed
  from created banned mime large schema createSubmissionSchema_refuses[of body]
  show ?thesis by blast
qed

theorem create_refused_creates_no_record_witness:
  "req_user (as_user bob) = Some bob \<and> \<not> isBanned bob
   \<and> createSubmissionSchema one_letter
       = Inl ''category length must be at least 2 characters long''
   \<and> mimetype png \<in> set allowedTypes \<and> upload_size png \<le> fileSize_limit env0
   \<and> fst (POST_submissions env0 db0 (as_user bob) one_letter (Some png) ''f9.png'' ''s9'')
       = Inl (Err 400 ''category length must be at least 2 characters long'')
   \<and> submissions (snd (POST_submissions env0 db0 (as_user bob) one_letter (Some png)
         ''f9.png'' ''s9'')) = submissions db0
   \<and> users (snd (POST_submissions env0 db0 (as_user bob) one_letter (Some png)
         ''f9.png'' ''s9'')) = users db0
   \<and> isBanned mallory
   \<and> POST_submissions env0 db0 (as_user mallory) solo_win (Some png) ''f9.png'' ''s9''
       = (Inl (Err 401 ''Authentication required''), db0)
   \<and> fileSize_limit env0 < upload_size huge
   \<and> POST_submissions env0 db0 (as_user bob) solo_win (Some huge) ''f9.png'' ''s9''
       = (Inl (Err 400 ''File too large''), db0)
   \<and> kind_of (Err 400 ''File too large'') = ValidationError
   \<and> mimetype pdf \<notin> set allowedTypes
   \<and> isl (fst (POST_submissions env0 db0 (as_user bob) solo_win (Some pdf) ''f9.pdf'' ''s9''))
   \<and> snd (POST_submissions env0 db0 (as_user bob) solo_win (Some pdf) ''f9.pdf'' ''s9'') = db0"
proof -
  let ?S = "POST_submissions env0 db0 (as_user bob) one_letter (Some png) ''f9.png'' ''s9''"
  let ?B = "POST_submissions env0 db0 (as_user mallory) solo_win (Some png) ''f9.png'' ''s9''"
  let ?L = "POST_submissions env0 db0 (as_user bob) solo_win (Some huge) ''f9.png'' ''s9''"
  let ?M = "POST_submissions env0 db0 (as_user bob) solo_win (Some pdf) ''f9.pdf'' ''s9''"
  let ?m = "''category length must be at least 2 characters long''"
  have bob: "req_user (as_user bob) = Some bob" "\<not> isBanned bob"
    by (simp_all add: sample_defs)
  have mal: "req_user (as_user mallory) = Some mallory" "isBanned mallory"
    "wants_json (as_user mallory)"
    by (simp_all add: sample_defs)
  have short: "createSubmissionSchema one_letter = Inl ?m"
    by (simp add: createSubmissionSchema_def sample_defs)
  have files: "mimetype png \<in> set allowedTypes" "upload_size png \<le> fileSize_limit env0"
    "mimetype huge \<in> set allowedTypes" "fileSize_limit env0 < upload_size huge"
    "mimetype pdf \<notin> set allowedTypes"
    by (simp_all add: allowedTypes_def fileSize_limit_def sample_defs)
  note S = create_refused_creates_no_record[OF surjective_pairing[of ?S], where u = bob
      and f = png and m = ?m]
  note B = create_refused_creates_no_record[OF surjective_pairing[of ?B], where u = mallory]
  note L = create_refused_creates_no_record[OF surjective_pairing[of ?L], where u = bob
      and f = huge]
  note M = create_refused_creates_no_record[OF surjective_pairing[of ?M], where u = bob
      and f = pdf]
  have s: "fst ?S = Inl (Err 400 ?m) \<and> kind_of (Err 400 ?m) = ValidationError
      \<and> submissions (snd ?S) = submissions db0 \<and> users (snd ?S) = users db0"
    by (rule S[THEN conjunct2, THEN conjunct2, THEN conjunct2, THEN conjunct2, THEN conjunct2,
          THEN mp])
      (simp add: bob short files)
  have "fst ?B = Inl (if wants_json (as_user mallory) then Err 401 ''Authentication required''
                      else Redirect ''/'') \<and> snd ?B = db0"
    by (rule B[THEN conjunct2, THEN conjunct2, THEN conjunct1, THEN mp]) (simp add: mal)
  with mal(3) have b: "?B = (Inl (Err 401 ''Authentication required''), db0)"
    by (simp add: prod_eq_iff)
  have "fst ?L = Inl (Err 400 ''File too large'') \<and> snd ?L = db0"
    by (rule L[THEN conjunct2, THEN conjunct2, THEN conjunct2, THEN conjunct2, THEN conjunct1,
          THEN mp])
      (simp add: bob files)
  then have l: "?L = (Inl (Err 400 ''File too large''), db0)"
    by (simp add: prod_eq_iff)
  have m: "isl (fst ?M) \<and> snd ?M = db0"
    by (rule M[THEN conjunct2, THEN conjunct2, THEN conjunct2, THEN conjunct1, THEN mp])
      (simp add: bob files)
  have k: "kind_of (Err 400 ''File too large'') = ValidationError" by simp
  from s have s': "fst ?S = Inl (Err 400 ?m)" "submissions (snd ?S) = submissions db0"
    "users (snd ?S) = users db0"
    by blast+
  from m have m': "isl (fst ?M)" "snd ?M = db0" by blast+
  show ?thesis
    by (intro conjI) (fact bob mal short files s' b l k m')+
qed

text \<open>
  The claim as it is written fails in two places. A banned user is refused by the guard
  with the 401 of the guard, not with a validation error. And a category the schema
  refuses is answered from inside the \<open>try\<close> block with \<open>return\<close>, so the cleanup of
  the \<open>catch\<close> block does not run: the file the upload middleware has written stays in
  the upload directory although no record was created.
\<close>

theorem create_refused_not_as_claimed:
  "isBanned mallory
   \<and> POST_submissions env0 db0 (as_user mallory) solo_win (Some png) ''f9.png'' ''s9''
       = (Inl (Err 401 ''Authentication required''), db0)
   \<and> kind_of (Err 401 ''Authentication required'') = AuthenticationError
   \<and> kind_of (Err 401 ''Authentication required'') \<noteq> ValidationError
   \<and> fst (POST_submissions env0 db0 (as_user bob) one_letter (Some png) ''f9.png'' ''s9'')
       = Inl (Err 400 ''category length must be at least 2 characters long'')
   \<and> submissions (snd (POST_submissions env0 db0 (as_user bob) one_letter (Some png)
         ''f9.png'' ''s9'')) = submissions db0
   \<and> ''f9.png'' \<notin> uploads db0
   \<and> ''f9.png'' \<in> uploads (snd (POST_submissions env0 db0 (as_user bob) one_letter (Some png)
         ''f9.png'' ''s9''))"
  by (simp add: create_defs guard_defs sample_defs)

section \<open>Claim C10: a banned user at the guard\<close>

text \<open>
  Claim C10, as the code has it. The guard \<open>isAuthenticated\<close> does not let a banned
  user through: it answers 401 "Authentication required" when the request is an XHR or
  accepts JSON, and redirects to \<open>/\<close> otherwise. Every route behind the guard, with
  whatever handler (the submission router and the admin router mount the guard with
  \<open>router.use\<close>, the user router and the two pages name it on each route), answers a
  banned user in that way and leaves the state as it was; so do the six routes modelled
  here, and no request of a banned user other than a login changes the state.
\<close>

theorem banned_user_is_rejected:
  "req_user req = Some u \<and> isBanned u \<longrightarrow>
     isAuthenticated req
       = Inl (if wants_json req then Err 401 ''Authentication required'' else Redirect ''/'')
     \<and> authenticated req d h
       = (Inl (if wants_json req then Err 401 ''Authentication required'' else Redirect ''/''), d)
     \<and> admin_only req d k
       = (Inl (if wants_json req then Err 401 ''Authentication required'' else Redirect ''/''), d)
     \<and> POST_submissions e d req cbody upl fname new_id
       = (Inl (if wants_json req then Err 401 ''Authentication required'' else Redirect ''/''), d)
     \<and> DELETE_submissions e d req sid
       = (Inl (if wants_json req then Err 401 ''Authentication required'' else Redirect ''/''), d)
     \<and> PATCH_submissions_review e d req sid rbody
       = (Inl (if wants_json req then Err 401 ''Authentication required'' else Redirect ''/''), d)
     \<and> PATCH_submissions_bulk_review e d req bbody
       = (Inl (if wants_json req then Err 401 ''Authentication required'' else Redirect ''/''), d)
     \<and> PATCH_users e d req tid ubody
       = (Inl (if wants_json req then Err 401 ''Authentication required'' else Redirect ''/''), d)
     \<and> POST_users_add_balance e d req tid abody
       = (Inl (if wants_json req then Err 401 ''Authentication required'' else Redirect ''/''), d)
     \<and> (case c of Login rt a r n \<Rightarrow> True | _ \<Rightarrow> step e d req c = d)"
proof
  assume "req_user req = Some u \<and> isBanned u"
  then have b: "req_user req = Some u" "isBanned u" by simp_all
  have "case c of Login rt a r n \<Rightarrow> True | _ \<Rightarrow> step e d req c = d"
    by (cases c)
      (simp_all add: POST_submissions_def DELETE_submissions_def PATCH_submissions_review_def
        PATCH_submissions_bulk_review_def PATCH_users_def POST_users_add_balance_def
        authenticated_banned[OF b] admin_only_banned[OF b])
  then show "isAuthenticated req
       = Inl (if wants_json req then Err 401 ''Authentication required'' else Redirect ''/'')
     \<and> authenticated req d h
       = (Inl (if wants_json req then Err 401 ''Authentication required'' else Redirect ''/''), d)
     \<and> admin_only req d k
       = (Inl (if wants_json req then Err 401 ''Authentication required'' else Redirect ''/''), d)
     \<and> POST_submissions e d req cbody upl fname new_id
       = (Inl (if wants_json req then Err 401 ''Authentication required'' else Redirect ''/''), d)
     \<and> DELETE_submissions e d req sid
       = (Inl (if wants_json req then Err 401 ''Authentication required'' else Redirect ''/''), d)
     \<and> PATCH_submissions_review e d req sid rbody
       = (Inl (if wants_json req then Err 401 ''Authentication required'' else Redirect ''/''), d)
     \<and> PATCH_submissions_bulk_review e d req bbody
       = (Inl (if wants_json req then Err 401 ''Authentication required'' else Redirect ''/''), d)
     \<and> PATCH_users e d req tid ubody
       = (Inl (if wants_json req then Err 401 ''Authentication required'' else Redirect ''/''), d)
     \<and> POST_users_add_balance e d req tid abody
       = (Inl (if wants_json req then Err 401 ''Authentication required'' else Redirect ''/''), d)
     \<and> (case c of Login rt a r n \<Rightarrow> True | _ \<Rightarrow> step e d req c = d)"
    by (simp only: POST_submissions_def DELETE_submissions_def PATCH_submissions_review_def
        PATCH_submissions_bulk_review_def PATCH_users_def POST_users_add_balance_def
        isAuthenticated_banned[OF b] authenticated_banned[OF b] admin_only_banned[OF b]
        simp_thms)
qed

theorem banned_user_is_rejected_witness:
  "req_user (as_user mallory) = Some mallory \<and> isBanned mallory
   \<and> wants_json (as_user mallory)
   \<and> userId clip = user_id mallory
   \<and> DELETE_submissions env0 db0 (as_user mallory) ''s1''
       = (Inl (Err 401 ''Authentication required''), db0)
   \<and> step env0 db0 (as_user mallory)
         (Create \<lparr>cb_category = Some ''Solo Win'', cb_description = None\<rparr> (Some png)
            ''f9.png'' ''s9'') = db0
   \<and> kind_of (Err 401 ''Authentication required'') = AuthenticationError"
proof -
  have given: "req_user (as_user mallory) = Some mallory \<and> isBanned mallory"
    by (simp add: sample_defs)
  have more: "wants_json (as_user mallory) \<and> userId clip = user_id mallory"
    by (simp add: sample_defs)
  note T = banned_user_is_rejected[where req = "as_user mallory" and u = mallory and e = env0
      and d = db0 and sid = "''s1''"
      and c = "Create \<lparr>cb_category = Some ''Solo Win'', cb_description = None\<rparr> (Some png)
            ''f9.png'' ''s9''", THEN mp, OF given]
  from T[THEN conjunct2, THEN conjunct2, THEN conjunct2, THEN conjunct2, THEN conjunct1] more
  have del: "DELETE_submissions env0 db0 (as_user mallory) ''s1''
       = (Inl (Err 401 ''Authentication required''), db0)"
    by simp
  from T[THEN conjunct2, THEN conjunct2, THEN conjunct2, THEN conjunct2, THEN conjunct2,
      THEN conjunct2, THEN conjunct2, THEN conjunct2, THEN conjunct2]
  have kept: "step env0 db0 (as_user mallory)
         (Create \<lparr>cb_category = Some ''Solo Win'', cb_description = None\<rparr> (Some png)
            ''f9.png'' ''s9'') = db0"
    by simp
  from given more del kept show ?thesis by simp
qed

text \<open>
  The claim as it is written fails for a request that is neither an XHR nor accepts
  JSON: the banned user is turned away by a redirect to \<open>/\<close>, not by an error.
\<close>

theorem banned_user_is_redirected:
  "isBanned mallory
   \<and> DELETE_submissions env0 db0 \<lparr>req_user = Some mallory, wants_json = False\<rparr> ''s1''
       = (Inl (Redirect ''/''), db0)
   \<and> kind_of (Redirect ''/'') = Redirected
   \<and> kind_of (Redirect ''/'') \<noteq> AuthenticationError"
  by (simp add: DELETE_submissions_def guard_defs sample_defs)

end
